theory Spec2Isabelle
  imports Complex_Main
begin

section \<open>Python strings\<close>

text \<open>
  A Python \<open>str\<close> is a sequence of Unicode code points, and \<open>strip\<close>, \<open>startswith\<close>,
  \<open>replace\<close>, \<open>isupper\<close>, \<open>lower\<close> and \<open>len\<close> all work on code points. The source
  compares against a literal with code points above 255, so a string is modelled as the
  list of its code points. \<open>u\<close> turns an ASCII literal into such a list.
\<close>

type_synonym ustr = "nat list"

definition u :: "string \<Rightarrow> ustr" where
  "u s = map of_char s"

text \<open>
  \<open>str.strip()\<close> without argument removes the characters for which CPython's
  \<open>_PyUnicode_IsWhitespace\<close> holds: U+0009-000D, U+001C-001F, U+0020, U+0085, U+00A0,
  U+1680, U+2000-200A, U+2028, U+2029, U+202F, U+205F, U+3000.
\<close>

definition isspace_cp :: "nat \<Rightarrow> bool" where
  "isspace_cp c \<longleftrightarrow>
     (9 \<le> c \<and> c \<le> 13) \<or> (28 \<le> c \<and> c \<le> 32) \<or> c = 133 \<or> c = 160 \<or> c = 5760 \<or>
     (8192 \<le> c \<and> c \<le> 8202) \<or> c = 8232 \<or> c = 8233 \<or> c = 8239 \<or> c = 8287 \<or> c = 12288"

definition lstrip :: "ustr \<Rightarrow> ustr" where
  "lstrip s = dropWhile isspace_cp s"

definition rstrip :: "ustr \<Rightarrow> ustr" where
  "rstrip s = rev (dropWhile isspace_cp (rev s))"

definition strip :: "ustr \<Rightarrow> ustr" where
  "strip s = rstrip (lstrip s)"

definition startswith :: "ustr \<Rightarrow> ustr \<Rightarrow> bool" where
  "startswith s p \<longleftrightarrow> take (length p) s = p"

text \<open>\<open>sub in s\<close>: \<open>sub\<close> occurs in \<open>s\<close> as a contiguous run.\<close>

fun contains :: "ustr \<Rightarrow> ustr \<Rightarrow> bool" where
  "contains sub [] \<longleftrightarrow> sub = []"
| "contains sub (c # cs) \<longleftrightarrow> startswith (c # cs) sub \<or> contains sub cs"

text \<open>\<open>s.replace(old, '')\<close> for a one-character \<open>old\<close>: every occurrence is removed.\<close>

definition replace_del :: "nat \<Rightarrow> ustr \<Rightarrow> ustr" where
  "replace_del old s = filter (\<lambda>c. c \<noteq> old) s"

text \<open>\<open>text.split('\n')\<close>: the pieces between line feeds; never an empty list.\<close>

fun split_nl :: "ustr \<Rightarrow> ustr list" where
  "split_nl [] = [[]]"
| "split_nl (c # cs) =
     (if c = 10 then [] # split_nl cs
      else (case split_nl cs of [] \<Rightarrow> [[c]] | l # ls \<Rightarrow> (c # l) # ls))"

text \<open>
  The case properties of code points and the case mappings of strings come from the
  Unicode character database that the interpreter ships (it is not part of the
  repository), so they are a parameter of the model: \<open>cp_isupper\<close> is
  \<open>Py_UNICODE_ISUPPER\<close>, \<open>cp_islower\<close> is "\<open>Py_UNICODE_ISLOWER\<close> or
  \<open>Py_UNICODE_ISTITLE\<close>", \<open>str_lower\<close> and \<open>str_upper\<close> are \<open>str.lower\<close> and \<open>str.upper\<close>
  (which are not character-wise maps: they can change the length).
\<close>

record casing =
  cp_isupper :: "nat \<Rightarrow> bool"
  cp_islower :: "nat \<Rightarrow> bool"
  str_lower :: "ustr \<Rightarrow> ustr"
  str_upper :: "ustr \<Rightarrow> ustr"

text \<open>
  \<open>str.isupper()\<close> as CPython computes it: a one-character string is upper when its
  character is; otherwise no character may be lowercase or titlecase and at least one
  must be uppercase. The empty string is not upper.
\<close>

definition py_isupper :: "casing \<Rightarrow> ustr \<Rightarrow> bool" where
  "py_isupper U s =
     (case s of
        [c] \<Rightarrow> cp_isupper U c
      | _ \<Rightarrow> list_all (\<lambda>c. \<not> cp_islower U c) s \<and> list_ex (cp_isupper U) s)"

text \<open>
  The database restricted to ASCII letters, every other code point caseless. It agrees
  with the interpreter on strings made of ASCII and caseless code points, and is used
  to run the model on such strings.
\<close>

definition ascii_upper_cp :: "nat \<Rightarrow> bool" where
  "ascii_upper_cp c \<longleftrightarrow> 65 \<le> c \<and> c \<le> 90"

definition ascii_lower_cp :: "nat \<Rightarrow> bool" where
  "ascii_lower_cp c \<longleftrightarrow> 97 \<le> c \<and> c \<le> 122"

definition ascii_casing :: casing where
  "ascii_casing =
     \<lparr> cp_isupper = ascii_upper_cp,
       cp_islower = ascii_lower_cp,
       str_lower = map (\<lambda>c. if ascii_upper_cp c then c + 32 else c),
       str_upper = map (\<lambda>c. if ascii_lower_cp c then c - 32 else c) \<rparr>"

section \<open>create\_pdf: classifying and laying out the lines\<close>

text \<open>
  The paragraph styles that \<open>create_pdf\<close> builds, and the two kinds of flowable it
  appends to \<open>content\<close>.
\<close>

datatype style = title_style | normal_style | header_style | date_style | bullet_style | sig_style

datatype flowable = Paragraph ustr style | Spacer nat nat

text \<open>
  The branch of the \<open>if\<close>/\<open>elif\<close> chain (lines 358-383) that a line takes. \<open>Blank\<close> is the
  line for which \<open>para.strip()\<close> is falsy. The first bullet marker is the literal of the
  source, the three code points U+00E2 U+20AC U+00A2.
\<close>

datatype role = Blank | Header | UppercaseHeader | Bullet | Signature | Body

definition bullet_literal :: ustr where
  "bullet_literal = [226, 8364, 162]"

definition classify :: "casing \<Rightarrow> ustr \<Rightarrow> role" where
  "classify U para =
     (if strip para = [] then Blank
      else if startswith (strip para) (u ''#'') then Header
      else if py_isupper U (strip para) \<and> length (strip para) > 3 then UppercaseHeader
      else if startswith (strip para) bullet_literal \<or> startswith (strip para) (u ''-'')
              \<or> startswith (strip para) (u ''*'') then Bullet
      else if contains (u ''signature'') (str_lower U para) \<or> contains (u ''sign'') (str_lower U para)
              \<or> contains (u ''date:'') (str_lower U para) then Signature
      else Body)"

text \<open>\<open>header_text = para.replace('#', '').strip()\<close>\<close>

definition header_text :: "ustr \<Rightarrow> ustr" where
  "header_text para = strip (replace_del 35 para)"

text \<open>
  The header text as the specification words it: the trimmed line without its leading
  run of \<open>#\<close>, trimmed again. It is what \<open>header_text\<close> is compared with.
\<close>

definition spec_header_text :: "ustr \<Rightarrow> ustr" where
  "spec_header_text para = strip (dropWhile (\<lambda>c. c = 35) (strip para))"

text \<open>The paragraph appended for a non-blank line, by the branch taken.\<close>

definition para_paragraph :: "casing \<Rightarrow> ustr \<Rightarrow> flowable" where
  "para_paragraph U para =
     (case classify U para of
        Header \<Rightarrow> Paragraph (header_text para) header_style
      | UppercaseHeader \<Rightarrow> Paragraph (strip para) header_style
      | Bullet \<Rightarrow> Paragraph (strip para) bullet_style
      | Signature \<Rightarrow> Paragraph para sig_style
      | _ \<Rightarrow> Paragraph para normal_style)"

text \<open>The spacer appended after it (lines 385-388).\<close>

definition para_spacer :: "casing \<Rightarrow> ustr \<Rightarrow> flowable" where
  "para_spacer U para =
     (if startswith (strip para) (u ''#'') \<or> py_isupper U (strip para) then Spacer 1 10
      else Spacer 1 6)"

text \<open>One round of the loop over \<open>paragraphs\<close>: nothing for a blank line.\<close>

definition para_flowables :: "casing \<Rightarrow> ustr \<Rightarrow> flowable list" where
  "para_flowables U para =
     (if strip para \<noteq> [] then [para_paragraph U para, para_spacer U para] else [])"

text \<open>
  The list \<open>content\<close> handed to \<open>doc.build\<close>: title block, date (the formatted current
  date is an input), and the blocks of the lines in order.
\<close>

definition create_pdf_content :: "casing \<Rightarrow> ustr \<Rightarrow> ustr \<Rightarrow> ustr \<Rightarrow> ustr \<Rightarrow> flowable list" where
  "create_pdf_content U today text business_name document_type =
     [Paragraph (str_upper U document_type) title_style,
      Paragraph (u ''For: '' @ business_name) title_style,
      Spacer 1 20,
      Paragraph (u ''Date: '' @ today) date_style,
      Spacer 1 20]
     @ concat (map (para_flowables U) (split_nl text))"

section \<open>Values, dictionaries and formatting\<close>

text \<open>
  A \<open>dict\<close> with string keys, as the list of its items; \<open>d.get(k)\<close> is \<open>dict_get d k\<close>,
  with \<open>None\<close> for a missing key. The values that occur in the result dictionaries are
  booleans and strings.
\<close>

type_synonym 'v dict = "(ustr \<times> 'v) list"

definition dict_get :: "'v dict \<Rightarrow> ustr \<Rightarrow> 'v option" where
  "dict_get d k = map_of d k"

datatype pyval = PBool bool | PStr ustr

text \<open>Truth value of \<open>d.get(k)\<close>: a missing key gives \<open>None\<close>, which is falsy.\<close>

fun truthy :: "pyval option \<Rightarrow> bool" where
  "truthy None = False"
| "truthy (Some (PBool b)) = b"
| "truthy (Some (PStr s)) = (s \<noteq> [])"

text \<open>What an f-string prints for a value.\<close>

fun fmt_val :: "pyval \<Rightarrow> ustr" where
  "fmt_val (PBool b) = (if b then u ''True'' else u ''False'')"
| "fmt_val (PStr s) = s"

text \<open>What an f-string prints for \<open>form_data.get(k)\<close>: the string, or \<open>None\<close>.\<close>

fun fmt_opt :: "ustr option \<Rightarrow> ustr" where
  "fmt_opt None = u ''None''"
| "fmt_opt (Some s) = s"

text \<open>Decimal printing of the attempt counters.\<close>

fun str_nat :: "nat \<Rightarrow> ustr" where
  "str_nat n = (if n < 10 then [48 + n] else str_nat (n div 10) @ [48 + n mod 10])"

declare str_nat.simps [simp del]

text \<open>\<open>', '.join(xs)\<close>\<close>

fun join_comma :: "ustr list \<Rightarrow> ustr" where
  "join_comma [] = []"
| "join_comma [x] = x"
| "join_comma (x # y # ys) = x @ u '', '' @ join_comma (y # ys)"

text \<open>\<open>os.path.join(a, b)\<close> on POSIX: an absolute \<open>b\<close> replaces \<open>a\<close>.\<close>

definition path_join :: "ustr \<Rightarrow> ustr \<Rightarrow> ustr" where
  "path_join a b =
     (if startswith b (u ''/'') then b
      else if a = [] \<or> last a = 47 then a @ b
      else a @ u ''/'' @ b)"

text \<open>
  \<open>os.path.dirname(p)\<close> on POSIX: the part up to the last \<open>/\<close>, without its trailing
  slashes unless it consists of slashes only.
\<close>

definition dirname :: "ustr \<Rightarrow> ustr" where
  "dirname p =
     (let head = rev (dropWhile (\<lambda>c. c \<noteq> 47) (rev p))
      in if head \<noteq> [] \<and> \<not> list_all (\<lambda>c. c = 47) head
         then rev (dropWhile (\<lambda>c. c = 47) (rev head))
         else head)"

text \<open>
  \<open>uuid.uuid4().hex\<close> is \<open>'%032x' % self.int\<close>: the 32 lowercase hexadecimal digits of
  the 128-bit number, most significant first.
\<close>

definition hex_digit :: "nat \<Rightarrow> nat" where
  "hex_digit d = (if d < 10 then 48 + d else 87 + d)"

definition hex32 :: "nat \<Rightarrow> ustr" where
  "hex32 n = map (\<lambda>i. hex_digit (n div 16 ^ (31 - i) mod 16)) [0..<32]"

definition CONSULTANCY_TYPES :: "ustr dict" where
  "CONSULTANCY_TYPES =
     [(u ''strategy'', u ''AI Business Strategy Consultation''),
      (u ''implementation'', u ''AI Implementation Plan''),
      (u ''audit'', u ''AI Readiness Audit''),
      (u ''roadmap'', u ''AI Adoption Roadmap''),
      (u ''ethics'', u ''AI Ethics Framework''),
      (u ''training'', u ''AI Training Program'')]"

text \<open>\<open>CONSULTANCY_TYPES.get(consultancy_type, default)\<close>, where the key may be \<open>None\<close>.\<close>

definition type_label :: "ustr option \<Rightarrow> ustr \<Rightarrow> ustr" where
  "type_label consultancy_type dflt =
     (case consultancy_type of
        None \<Rightarrow> dflt
      | Some k \<Rightarrow> (case dict_get CONSULTANCY_TYPES k of None \<Rightarrow> dflt | Some v \<Rightarrow> v))"

section \<open>The environment and the state of an invocation\<close>

text \<open>
  What the code reads from outside is an input of the model. The \<open>n\<close>-th call of the
  text-generation service raises with message \<open>e\<close> (\<open>Inl e\<close>) or returns a message
  content, which can be \<open>None\<close>; the \<open>n\<close>-th \<open>time.time()\<close> returns \<open>time_read n\<close>; the
  \<open>n\<close>-th \<open>uuid.uuid4()\<close> is the number \<open>uuid_int n\<close>; the \<open>n\<close>-th \<open>os.makedirs\<close> call of
  \<open>generate_consultation\<close>, for a directory \<open>d\<close>, succeeds (\<open>None\<close>) or raises
  (\<open>Some e\<close>) as \<open>makedirs_result n d\<close> says; the typesetting of the \<open>n\<close>-th \<open>create_pdf\<close>
  call (building the paragraphs and \<open>doc.build\<close>) writes the file (\<open>None\<close>) or raises
  (\<open>Some e\<close>). \<open>cwd\<close> is \<open>os.getcwd()\<close> at start-up. The payment provider's answer
  for a session id is an error of the provider, another exception (for instance metadata
  that is not JSON), or the stored form data.
\<close>

datatype session_lookup = StripeError ustr | OtherError ustr | FormData "ustr dict"

record env =
  casing_db :: casing
  api_result :: "nat \<Rightarrow> ustr + ustr option"
  time_read :: "nat \<Rightarrow> real"
  uuid_int :: "nat \<Rightarrow> nat"
  makedirs_result :: "nat \<Rightarrow> ustr \<Rightarrow> ustr option"
  build_result :: "nat \<Rightarrow> ustr option"
  today :: ustr
  cwd :: ustr
  session_retrieve :: "ustr option \<Rightarrow> session_lookup"

definition uuid_hex :: "env \<Rightarrow> nat \<Rightarrow> ustr" where
  "uuid_hex E n = hex32 (uuid_int E n)"

text \<open>\<open>DOWNLOAD_FOLDER = os.path.join(os.getcwd(), "static", "downloads")\<close> (line 60).\<close>

definition download_folder :: "env \<Rightarrow> ustr" where
  "download_folder E = path_join (path_join (cwd E) (u ''static'')) (u ''downloads'')"

text \<open>
  \<open>os.makedirs(d, exist_ok=True)\<close>. The download folder was made at start-up (line 61),
  so the call succeeds for it; for any other directory the file system decides.
\<close>

definition makedirs :: "env \<Rightarrow> nat \<Rightarrow> ustr \<Rightarrow> ustr option" where
  "makedirs E n d = (if d = download_folder E then None else makedirs_result E n d)"

text \<open>
  What the code does to the outside: the prompts sent to the service (one per call), the
  sleeps, the number of clock reads, of identifiers drawn, of \<open>os.makedirs\<close> calls and of
  \<open>create_pdf\<close> calls, the files written (path and content) and the application log.
\<close>

datatype level = ERROR | WARNING | INFO

record world =
  api_log :: "ustr list"
  sleeps :: "nat list"
  time_calls :: nat
  uuid_calls :: nat
  makedirs_calls :: nat
  pdf_calls :: nat
  files :: "(ustr \<times> flowable list) list"
  log :: "(level \<times> ustr) list"

definition world0 :: world where
  "world0 = \<lparr> api_log = [], sleeps = [], time_calls = 0, uuid_calls = 0,
              makedirs_calls = 0, pdf_calls = 0, files = [], log = [] \<rparr>"

definition logger :: "level \<Rightarrow> ustr \<Rightarrow> world \<Rightarrow> world" where
  "logger l m w = w\<lparr>log := log w @ [(l, m)]\<rparr>"

definition sleep :: "nat \<Rightarrow> world \<Rightarrow> world" where
  "sleep d w = w\<lparr>sleeps := sleeps w @ [d]\<rparr>"

section \<open>create\_pdf\<close>

text \<open>
  \<open>create_pdf(text, filepath, business_name, document_type)\<close>. With \<open>text = None\<close> the
  call \<open>text.split\<close> raises before anything is built. Otherwise the content is handed to
  the typesetter, which writes the file or raises. The result is the exception's
  message, if one was raised.
\<close>

definition none_split_msg :: ustr where
  "none_split_msg = [39] @ u ''NoneType'' @ [39] @ u '' object has no attribute '' @ [39] @ u ''split'' @ [39]"

definition create_pdf :: "env \<Rightarrow> ustr option \<Rightarrow> ustr \<Rightarrow> ustr option \<Rightarrow> ustr \<Rightarrow> world \<Rightarrow> ustr option \<times> world" where
  "create_pdf E text filepath business_name document_type w =
     (let w1 = w\<lparr>pdf_calls := pdf_calls w + 1\<rparr> in
      case text of
        None \<Rightarrow> (Some none_split_msg, w1)
      | Some t \<Rightarrow>
          (case build_result E (pdf_calls w) of
             Some e \<Rightarrow> (Some e, w1)
           | None \<Rightarrow>
               (None, w1\<lparr>files := files w1 @
                  [(filepath, create_pdf_content (casing_db E) (today E) t (fmt_opt business_name) document_type)]\<rparr>)))"

section \<open>generate\_consultation\<close>

definition focus_areas :: "ustr dict \<Rightarrow> ustr list" where
  "focus_areas form_data =
     (if dict_get form_data (u ''focus_strategy'') \<notin> {None, Some []} then [u ''Business Strategy''] else []) @
     (if dict_get form_data (u ''focus_operations'') \<notin> {None, Some []} then [u ''Operations Optimization''] else []) @
     (if dict_get form_data (u ''focus_marketing'') \<notin> {None, Some []} then [u ''Marketing & Sales''] else []) @
     (if dict_get form_data (u ''focus_customer'') \<notin> {None, Some []} then [u ''Customer Experience''] else [])"

text \<open>The prompt of lines 235-252; \<open>[10]\<close> is the line feed.\<close>

definition build_prompt :: "ustr dict \<Rightarrow> ustr" where
  "build_prompt form_data =
     u ''Generate a comprehensive ''
     @ type_label (dict_get form_data (u ''consultancy_type'')) (u ''AI Consultancy'')
     @ u '' report for '' @ fmt_opt (dict_get form_data (u ''business_name''))
     @ u '', a '' @ fmt_opt (dict_get form_data (u ''business_size''))
     @ u '' '' @ fmt_opt (dict_get form_data (u ''business_type''))
     @ u '' in the '' @ fmt_opt (dict_get form_data (u ''industry'')) @ u '' industry.'' @ [10, 10]
     @ u ''Focus Areas: ''
     @ (if focus_areas form_data \<noteq> [] then join_comma (focus_areas form_data)
        else u ''General AI Adoption'') @ [10, 10]
     @ u ''Additional Instructions: ''
     @ (case dict_get form_data (u ''additional_instructions'') of None \<Rightarrow> [] | Some s \<Rightarrow> s) @ [10, 10]
     @ u ''**Report Structure Guidelines:**'' @ [10]
     @ u ''1. Executive Summary (1 paragraph)'' @ [10]
     @ u ''2. Current State Analysis'' @ [10]
     @ u ''3. Key Opportunities for AI Adoption'' @ [10]
     @ u ''4. Recommended AI Solutions'' @ [10]
     @ u ''5. Implementation Roadmap'' @ [10]
     @ u ''6. Risk Assessment'' @ [10]
     @ u ''7. ROI Projections'' @ [10]
     @ u ''8. Next Steps'' @ [10, 10]
     @ u ''Format the report professionally with clear headings, bullet points for key recommendations, and data-driven insights. Use business-friendly language while maintaining technical accuracy.'' @ [10]"

text \<open>\<open>max_retries\<close> of \<open>generate_consultation\<close> (line 254).\<close>

definition gc_max_retries :: nat where
  "gc_max_retries = 3"

text \<open>
  The loop of lines 257-280 over \<open>range(max_retries)\<close>: it leaves by \<open>break\<close> with the
  message content, by the \<open>raise\<close> of line 280, or by running out of attempts.
  Everything inside the \<open>try\<close> that fails is the service call.
\<close>

datatype loop_result = Broke "ustr option" | Raised ustr | Exhausted

fun call_loop :: "env \<Rightarrow> ustr \<Rightarrow> nat list \<Rightarrow> nat \<Rightarrow> world \<Rightarrow> loop_result \<times> world" where
  "call_loop E prompt [] retry_delay w = (Exhausted, w)"
| "call_loop E prompt (attempt # rest) retry_delay w =
     (let w1 = w\<lparr>api_log := api_log w @ [prompt]\<rparr> in
      case api_result E (length (api_log w)) of
        Inr content \<Rightarrow> (Broke content, w1)
      | Inl e \<Rightarrow>
          (let w2 = logger ERROR (u ''OpenAI API error (attempt '' @ str_nat (attempt + 1) @ u ''/''
                      @ str_nat gc_max_retries @ u ''): '' @ e) w1 in
           if attempt < gc_max_retries - 1
           then call_loop E prompt rest (retry_delay * 2) (sleep retry_delay w2)
           else (Raised (u ''Failed to generate consultation after '' @ str_nat gc_max_retries
                         @ u '' attempts: '' @ e),
                 logger ERROR (u ''All '' @ str_nat gc_max_retries
                         @ u '' attempts to call OpenAI API failed'') w2)))"

text \<open>The handler of lines 295-297: log, and raise a new exception around the message.\<close>

definition gc_handler :: "ustr \<Rightarrow> world \<Rightarrow> (ustr + pyval dict) \<times> world" where
  "gc_handler e w =
     (Inl (u ''Failed to generate consultation: '' @ e),
      logger ERROR (u ''OpenAI API error: '' @ e) w)"

text \<open>Reading \<open>document_text\<close> when no round of the loop has bound it.\<close>

definition unbound_msg :: ustr where
  "unbound_msg = u ''cannot access local variable '' @ [39] @ u ''document_text'' @ [39]
                 @ u '' where it is not associated with a value''"

text \<open>\<open>filename = f"{consultancy_type}_{unique_id}.pdf"\<close>\<close>

definition pdf_filename :: "ustr option \<Rightarrow> ustr \<Rightarrow> ustr" where
  "pdf_filename consultancy_type unique_id = fmt_opt consultancy_type @ u ''_'' @ unique_id @ u ''.pdf''"

text \<open>
  \<open>generate_consultation(form_data)\<close>: \<open>Inl\<close> is the message of the exception it raises,
  \<open>Inr\<close> the dictionary it returns. After the loop come the identifier, the path, the
  \<open>os.makedirs\<close> call on the directory of the path (line 286) and the \<open>create_pdf\<close>
  call; every exception goes through the handler of lines 295-297.
\<close>

definition generate_consultation :: "env \<Rightarrow> ustr dict \<Rightarrow> world \<Rightarrow> (ustr + pyval dict) \<times> world" where
  "generate_consultation E form_data w =
     (let consultancy_type = dict_get form_data (u ''consultancy_type'');
          business_name = dict_get form_data (u ''business_name'')
      in case call_loop E (build_prompt form_data) [0..<gc_max_retries] 2 w of
        (Raised msg, w1) \<Rightarrow> gc_handler msg w1
      | (left, w1) \<Rightarrow>
          (let unique_id = take 8 (uuid_hex E (uuid_calls w1));
               w2 = w1\<lparr>uuid_calls := uuid_calls w1 + 1\<rparr>;
               filename = pdf_filename consultancy_type unique_id;
               filepath = path_join (download_folder E) filename;
               w3 = w2\<lparr>makedirs_calls := makedirs_calls w2 + 1\<rparr>
           in case makedirs E (makedirs_calls w2) (dirname filepath) of
                Some e \<Rightarrow> gc_handler e w3
              | None \<Rightarrow>
                  (case left of
                     Broke document_text \<Rightarrow>
                       (case create_pdf E document_text filepath business_name
                               (type_label consultancy_type (u ''AI Consultancy Report'')) w3 of
                          (Some e, w4) \<Rightarrow> gc_handler e w4
                        | (None, w4) \<Rightarrow>
                            (Inr [(u ''success'', PBool True),
                                  (u ''download_url'', PStr (u ''/download/'' @ filename))], w4))
                   | _ \<Rightarrow> gc_handler unbound_msg w3)))"

section \<open>payment\_success\<close>

text \<open>A response is the JSON body and the status code (200 when none is given).\<close>

type_synonym response = "pyval dict \<times> nat"

definition timeout_limit :: real where
  "timeout_limit = 25"

text \<open>\<open>max_retries\<close> of \<open>payment_success\<close> (line 133).\<close>

definition ps_max_retries :: nat where
  "ps_max_retries = 2"

definition processing_response :: response where
  "processing_response =
     ([(u ''status'', PStr (u ''processing'')),
       (u ''message'', PStr (u ''Your consultation report is still being generated. Please wait a moment and try again.''))],
      202)"

definition retry_note :: "nat \<Rightarrow> ustr" where
  "retry_note attempt =
     u ''Retrying consultation generation (attempt '' @ str_nat (attempt + 2) @ u ''/''
     @ str_nat ps_max_retries @ u '')''"

text \<open>
  The loop of lines 136-168 over \<open>range(max_retries)\<close>. A loop that ends without a
  \<open>return\<close> leaves the function without a response (\<open>None\<close>).
\<close>

fun attempt_loop :: "env \<Rightarrow> ustr dict \<Rightarrow> real \<Rightarrow> nat list \<Rightarrow> nat \<Rightarrow> world \<Rightarrow> response option \<times> world" where
  "attempt_loop E form_data start_time [] retry_delay w = (None, w)"
| "attempt_loop E form_data start_time (attempt # rest) retry_delay w =
     (let now = time_read E (time_calls w);
          w1 = w\<lparr>time_calls := time_calls w + 1\<rparr>
      in if now - start_time > timeout_limit
         then (Some processing_response,
               logger WARNING (u ''Approaching timeout limit, returning processing status'') w1)
         else
          (case generate_consultation E form_data w1 of
             (Inr document_result, w2) \<Rightarrow>
               if truthy (dict_get document_result (u ''success''))
               then (Some (document_result, 200), w2)
               else
                (let error_msg = (case dict_get document_result (u ''error'') of
                                    None \<Rightarrow> u ''Unknown error'' | Some v \<Rightarrow> fmt_val v);
                     w3 = logger ERROR (u ''Consultation generation failed: '' @ error_msg) w2
                 in if attempt < ps_max_retries - 1
                    then attempt_loop E form_data start_time rest (retry_delay * 2)
                           (logger INFO (retry_note attempt) (sleep retry_delay w3))
                    else (Some ([(u ''error'', PStr (u ''Failed to generate consultation after ''
                                   @ str_nat ps_max_retries @ u '' attempts: '' @ error_msg))], 500), w3))
           | (Inl doc_error, w2) \<Rightarrow>
               (let w3 = logger ERROR (u ''Consultation generation exception (attempt ''
                           @ str_nat (attempt + 1) @ u ''/'' @ str_nat ps_max_retries @ u ''): '' @ doc_error) w2
                in if attempt < ps_max_retries - 1
                   then attempt_loop E form_data start_time rest (retry_delay * 2)
                          (logger INFO (retry_note attempt) (sleep retry_delay w3))
                   else (Some ([(u ''error'', PStr (u ''Consultation generation failed after ''
                                  @ str_nat ps_max_retries @ u '' attempts: '' @ doc_error))], 500), w3))))"

text \<open>
  \<open>payment_success()\<close> for the \<open>session_id\<close> of the request (\<open>None\<close> when the query
  has none).
\<close>

definition payment_success :: "env \<Rightarrow> ustr option \<Rightarrow> world \<Rightarrow> response option \<times> world" where
  "payment_success E session_id w =
     (case session_retrieve E session_id of
        StripeError e \<Rightarrow>
          (Some ([(u ''error'', PStr (u ''Payment verification failed: '' @ e))], 400),
           logger ERROR (u ''Stripe error: '' @ e) w)
      | OtherError e \<Rightarrow>
          (Some ([(u ''error'', PStr (u ''An unexpected error occurred: '' @ e))], 500),
           logger ERROR (u ''Payment success route error: '' @ e) w)
      | FormData form_data \<Rightarrow>
          attempt_loop E form_data (time_read E (time_calls w)) [0..<ps_max_retries] 1
            (w\<lparr>time_calls := time_calls w + 1\<rparr>))"

section \<open>Observations on a run\<close>

text \<open>What a run did to the outside, the log apart.\<close>

definition effects :: "world \<Rightarrow> ustr list \<times> nat list \<times> nat \<times> nat \<times> nat \<times> nat \<times> (ustr \<times> flowable list) list" where
  "effects w = (api_log w, sleeps w, time_calls w, uuid_calls w, makedirs_calls w, pdf_calls w, files w)"

text \<open>
  The path of the file when the identifier is drawn in the world \<open>w\<close> (lines 282-284),
  and the outcome of the \<open>os.makedirs\<close> call made for it in \<open>w\<close> (line 286).
\<close>

definition pdf_path :: "env \<Rightarrow> ustr dict \<Rightarrow> world \<Rightarrow> ustr" where
  "pdf_path E form_data w =
     path_join (download_folder E)
       (pdf_filename (dict_get form_data (u ''consultancy_type'')) (take 8 (uuid_hex E (uuid_calls w))))"

definition makedirs_outcome :: "env \<Rightarrow> ustr dict \<Rightarrow> world \<Rightarrow> ustr option" where
  "makedirs_outcome E form_data w = makedirs E (makedirs_calls w) (dirname (pdf_path E form_data w))"

text \<open>
  The branch of lines 149-158, which handles a returned result that is not successful,
  starts by logging an error with this prefix; no other log call of the application
  writes it.
\<close>

definition unsuccessful_result_logged :: "world \<Rightarrow> bool" where
  "unsuccessful_result_logged w \<longleftrightarrow>
     list_ex (\<lambda>m. startswith (snd m) (u ''Consultation generation failed: '')) (log w)"

section \<open>Environments for running the model\<close>

text \<open>
  An environment built from a script of service outcomes, a clock, a script of
  typesetting outcomes and the form data stored with the payment session. Every
  identifier is \<open>01234567\<close> followed by 24 zeros, the working directory is \<open>/app\<close>, and
  directories other than the download folder can be made.
\<close>

definition demo_env :: "(nat \<Rightarrow> ustr + ustr option) \<Rightarrow> (nat \<Rightarrow> real) \<Rightarrow> (nat \<Rightarrow> ustr option) \<Rightarrow> ustr dict \<Rightarrow> env" where
  "demo_env api clock build form_data =
     \<lparr> casing_db = ascii_casing,
       api_result = api,
       time_read = clock,
       uuid_int = (\<lambda>n. 19088743 * 16 ^ 24),
       makedirs_result = (\<lambda>n d. None),
       build_result = build,
       today = u ''January 01, 2025'',
       cwd = u ''/app'',
       session_retrieve = (\<lambda>sid. FormData form_data) \<rparr>"

text \<open>
  The service returns a one-line report and the typesetter accepts it; the same with a
  typesetter that rejects the first document, or every document; a service that is down,
  or that recovers at its third call; a clock that advances 30 seconds between reads.
\<close>

definition env_ok :: env where
  "env_ok = demo_env (\<lambda>n. Inr (Some (u ''# Plan''))) (\<lambda>n. 0) (\<lambda>n. None) []"

definition env_render_fails_once :: env where
  "env_render_fails_once =
     demo_env (\<lambda>n. Inr (Some (u ''# Plan''))) (\<lambda>n. 0)
       (\<lambda>n. if n = 0 then Some (u ''boom'') else None) []"

definition env_render_fails :: env where
  "env_render_fails =
     demo_env (\<lambda>n. Inr (Some (u ''# Plan''))) (\<lambda>n. 0) (\<lambda>n. Some (u ''boom'')) []"

definition env_service_down :: env where
  "env_service_down = demo_env (\<lambda>n. Inl (u ''timeout'')) (\<lambda>n. 0) (\<lambda>n. None) []"

definition env_service_recovers :: env where
  "env_service_recovers =
     demo_env (\<lambda>n. if n < 2 then Inl (u ''timeout'') else Inr (Some (u ''# Plan'')))
       (\<lambda>n. 0) (\<lambda>n. None) [(u ''consultancy_type'', u ''audit'')]"

definition env_slow :: env where
  "env_slow = demo_env (\<lambda>n. Inr (Some (u ''# Plan''))) (\<lambda>n. 30 * real n) (\<lambda>n. None) []"

section \<open>Facts about paths and identifiers\<close>

lemma hex_digit_not_slash: "hex_digit (d mod 16) \<noteq> 47"
  by (simp add: hex_digit_def)

lemma length_hex32: "length (hex32 n) = 32"
  by (simp add: hex32_def)

lemma hex32_no_slash: "47 \<notin> set (hex32 n)"
  by (auto simp: hex32_def hex_digit_def)

lemma unique_id_no_slash: "47 \<notin> set (take 8 (uuid_hex E n))"
  using hex32_no_slash [of "uuid_int E n"] by (auto simp: uuid_hex_def dest: in_set_takeD)

lemma length_uuid_hex: "length (uuid_hex E n) = 32"
  by (simp add: uuid_hex_def length_hex32)

lemma take8_hex32:
  "take 8 (hex32 n) = map (\<lambda>i. hex_digit (n div 16 ^ (31 - i) mod 16)) [0, 1, 2, 3, 4, 5, 6, 7]"
proof -
  have "take 8 [0..<32] = [0, 1, 2, 3, 4, 5, 6, 7::nat]"
    by (simp add: take_upt numeral_eq_Suc)
  then show ?thesis
    by (simp add: hex32_def take_map)
qed

lemma dirname_join:
  assumes "47 \<notin> set name" and "F \<noteq> []" and "last F \<noteq> 47"
  shows "dirname (path_join F name) = F"
proof -
  have n: "\<not> startswith name (u ''/'')"
    using assms(1) by (cases name) (auto simp: startswith_def u_def)
  have j: "path_join F name = F @ 47 # name"
    using n assms(2,3) by (simp add: path_join_def u_def)
  have "dropWhile (\<lambda>c. c \<noteq> 47) (rev name @ 47 # rev F) = 47 # rev F"
    using assms(1) dropWhile_append2 [of "rev name" "\<lambda>c. c \<noteq> 47" "47 # rev F"] by auto
  then have h: "rev (dropWhile (\<lambda>c. c \<noteq> 47) (rev (F @ 47 # name))) = F @ [47]"
    by simp
  have l: "\<not> list_all (\<lambda>c. c = 47) (F @ [47])"
    using assms(2,3) by (auto simp: list_all_iff)
  have "dropWhile (\<lambda>c. c = 47) (rev F) = rev F"
    using assms(2,3) by (cases "rev F") (auto simp: last_rev hd_rev)
  then show ?thesis
    unfolding j dirname_def h using l by simp
qed

lemma download_folder_shape: "download_folder E \<noteq> [] \<and> last (download_folder E) \<noteq> 47"
  by (simp add: download_folder_def path_join_def startswith_def u_def)

lemma dirname_in_download_folder:
  "47 \<notin> set name \<Longrightarrow> dirname (path_join (download_folder E) name) = download_folder E"
  using dirname_join download_folder_shape by blast

lemma makedirs_outcome_no_type:
  assumes "dict_get form_data (u ''consultancy_type'') = None"
  shows "makedirs_outcome E form_data w = None"
proof -
  have "47 \<notin> set (pdf_filename None (take 8 (uuid_hex E (uuid_calls w))))"
    using unique_id_no_slash [of E "uuid_calls w"] by (simp add: pdf_filename_def u_def)
  then show ?thesis
    using assms by (simp add: makedirs_outcome_def pdf_path_def makedirs_def dirname_in_download_folder)
qed


text \<open>
  A consultancy type with a path separator moves the file out of the download folder:
  the directory that \<open>os.makedirs\<close> is asked for is then another one.
\<close>

lemma dirname_absolute_type:
  "dirname (path_join (u ''/app/static/downloads'') (u ''/dev/null/x_01234567.pdf'')) = u ''/dev/null''"
  by (simp add: dirname_def path_join_def startswith_def u_def)

section \<open>Facts about the string operations\<close>

lemmas str_eval = u_def strip_def lstrip_def rstrip_def isspace_cp_def startswith_def
  replace_del_def py_isupper_def ascii_casing_def ascii_upper_cp_def ascii_lower_cp_def
  bullet_literal_def

lemma lstrip_pad: "\<forall>c\<in>set a. isspace_cp c \<Longrightarrow> lstrip (a @ r) = lstrip r"
  by (simp add: lstrip_def dropWhile_append2)

lemma rstrip_pad: "\<forall>c\<in>set b. isspace_cp c \<Longrightarrow> rstrip (r @ b) = rstrip r"
  using dropWhile_append2 [of "rev b" isspace_cp "rev r"] by (simp add: rstrip_def)

lemma strip_right_pad:
  assumes b: "\<forall>c\<in>set b. isspace_cp c"
  shows "rstrip (lstrip (r @ b)) = rstrip (lstrip r)"
proof (cases "\<forall>c\<in>set r. isspace_cp c")
  case True
  with b have "lstrip (r @ b) = []" and "lstrip r = []"
    by (auto simp: lstrip_def)
  then show ?thesis by simp
next
  case False
  then obtain x where "x \<in> set r" and "\<not> isspace_cp x" by blast
  then have "lstrip (r @ b) = lstrip r @ b"
    by (simp add: lstrip_def dropWhile_append1)
  with b show ?thesis by (simp add: rstrip_pad)
qed

lemma strip_pad:
  "\<forall>c\<in>set a. isspace_cp c \<Longrightarrow> \<forall>c\<in>set b. isspace_cp c \<Longrightarrow> strip (a @ r @ b) = strip r"
  by (simp add: strip_def lstrip_pad strip_right_pad)

lemma strip_decomp:
  "\<exists>a b. s = a @ strip s @ b \<and> (\<forall>c\<in>set a. isspace_cp c) \<and> (\<forall>c\<in>set b. isspace_cp c)"
proof -
  let ?a = "takeWhile isspace_cp s"
  let ?b = "rev (takeWhile isspace_cp (rev (lstrip s)))"
  have 1: "s = ?a @ lstrip s" by (simp add: lstrip_def)
  have "xs = rev (dropWhile P (rev xs)) @ rev (takeWhile P (rev xs))" for P and xs :: ustr
    by (metis rev_append rev_rev_ident takeWhile_dropWhile_id)
  then have 2: "lstrip s = strip s @ ?b" by (simp add: strip_def rstrip_def)
  have a: "\<forall>c\<in>set ?a. isspace_cp c" by (auto dest: set_takeWhileD)
  have b: "\<forall>c\<in>set ?b. isspace_cp c" by (auto dest: set_takeWhileD)
  from 1 2 have "s = ?a @ strip s @ ?b" by simp
  with a b show ?thesis by blast
qed

lemma set_strip: "set (strip s) \<subseteq> set s"
  unfolding strip_def rstrip_def lstrip_def
  by (metis set_dropWhileD set_rev subsetI)

lemma replace_del_spaces: "\<forall>c\<in>set a. isspace_cp c \<Longrightarrow> replace_del 35 a = a"
  unfolding replace_del_def by (induction a) (auto simp: isspace_cp_def)

lemma header_text_of_strip: "header_text line = strip (replace_del 35 (strip line))"
proof -
  obtain a b where d: "line = a @ strip line @ b"
    and a: "\<forall>c\<in>set a. isspace_cp c" and b: "\<forall>c\<in>set b. isspace_cp c"
    using strip_decomp by blast
  have "replace_del 35 line = replace_del 35 (a @ strip line @ b)" using d by simp
  also have "\<dots> = a @ replace_del 35 (strip line) @ b"
    using replace_del_spaces [OF a] replace_del_spaces [OF b] by (simp add: replace_del_def)
  finally show ?thesis using a b by (simp add: header_text_def strip_pad)
qed

lemma replace_del_leading:
  "h \<notin> set (dropWhile (\<lambda>c. c = h) s) \<Longrightarrow> replace_del h s = dropWhile (\<lambda>c. c = h) s"
  unfolding replace_del_def by (induction s) (auto simp: filter_id_conv)

lemma replace_del_clean:
  assumes "35 \<notin> set (strip r)"
  shows "replace_del 35 r = r"
proof -
  obtain a b where d: "r = a @ strip r @ b"
    and a: "\<forall>c\<in>set a. isspace_cp c" and b: "\<forall>c\<in>set b. isspace_cp c"
    using strip_decomp by blast
  have "replace_del 35 (strip r) = strip r"
    using assms by (auto simp: replace_del_def filter_id_conv)
  then have "replace_del 35 (a @ strip r @ b) = a @ strip r @ b"
    using replace_del_spaces [OF a] replace_del_spaces [OF b] by (simp add: replace_del_def)
  with d show ?thesis by simp
qed

lemma startswith_hash_nonempty: "startswith s (u ''#'') \<Longrightarrow> s \<noteq> []"
  by (auto simp: startswith_def u_def)

section \<open>The line classifier\<close>

text \<open>
  C1. A line whose trimmed form starts with \<open>#\<close> takes the header branch, whatever else
  it contains: the uppercase, bullet and signature tests are not reached, and the line is
  laid out as a header paragraph followed by the larger spacer. The instance below is
  \<open># Signature\<close>, which also contains "signature".
\<close>

theorem hash_line_is_header:
  assumes "startswith (strip line) (u ''#'')"
  shows "classify U line = Header \<and>
         para_flowables U line = [Paragraph (header_text line) header_style, Spacer 1 10]"
  using assms startswith_hash_nonempty [OF assms]
  by (simp add: classify_def para_flowables_def para_paragraph_def para_spacer_def)

theorem hash_line_is_header_witness:
  "startswith (strip (u ''# Signature'')) (u ''#'') \<and>
   contains (u ''signature'') (str_lower ascii_casing (u ''# Signature'')) \<and>
   classify ascii_casing (u ''# Signature'') = Header \<and>
   para_flowables ascii_casing (u ''# Signature'') = [Paragraph (u ''Signature'') header_style, Spacer 1 10]"
proof -
  have h: "startswith (strip (u ''# Signature'')) (u ''#'')"
    by (simp add: str_eval)
  have t: "header_text (u ''# Signature'') = u ''Signature''"
    by (simp add: header_text_def str_eval)
  have c: "contains (u ''signature'') (str_lower ascii_casing (u ''# Signature''))"
    by (simp add: str_eval)
  from hash_line_is_header [OF h, of ascii_casing] h t c show ?thesis by simp
qed

text \<open>
  C6, as stated, fails: \<open>replace\<close> deletes every \<open>#\<close> of the line, not only the leading
  ones. For \<open># C# Guide\<close> the header paragraph reads \<open>C Guide\<close>, while removing the
  leading \<open>#\<close> and trimming gives \<open>C# Guide\<close>.
\<close>

theorem header_text_counterexample:
  "startswith (strip (u ''# C# Guide'')) (u ''#'') \<and>
   para_paragraph ascii_casing (u ''# C# Guide'') = Paragraph (u ''C Guide'') header_style \<and>
   spec_header_text (u ''# C# Guide'') = u ''C# Guide'' \<and>
   header_text (u ''# C# Guide'') \<noteq> spec_header_text (u ''# C# Guide'')"
  by (simp add: para_paragraph_def classify_def header_text_def spec_header_text_def str_eval)

text \<open>
  C6, amended. For a line whose trimmed form starts with \<open>#\<close>, the header paragraph
  carries the line with every \<open>#\<close> deleted and the surrounding whitespace stripped, so
  it contains no \<open>#\<close> at all; it is the line without its leading \<open>#\<close>, trimmed,
  exactly when that text has no further \<open>#\<close>.
\<close>

theorem header_text_removes_every_hash:
  assumes "startswith (strip line) (u ''#'')"
  shows "para_paragraph U line = Paragraph (header_text line) header_style \<and>
         header_text line = strip (replace_del 35 line) \<and>
         35 \<notin> set (header_text line) \<and>
         (35 \<notin> set (spec_header_text line) \<longrightarrow> header_text line = spec_header_text line)"
proof -
  have 1: "para_paragraph U line = Paragraph (header_text line) header_style"
    using assms startswith_hash_nonempty [OF assms]
    by (simp add: para_paragraph_def classify_def)
  have 2: "35 \<notin> set (header_text line)"
    using set_strip [of "replace_del 35 line"] by (auto simp: header_text_def replace_del_def)
  have 3: "header_text line = spec_header_text line" if "35 \<notin> set (spec_header_text line)"
  proof -
    let ?r = "dropWhile (\<lambda>c. c = 35) (strip line)"
    have "replace_del 35 (strip line) = replace_del 35 (takeWhile (\<lambda>c. c = 35) (strip line) @ ?r)"
      by simp
    also have "\<dots> = replace_del 35 ?r"
    proof -
      have "filter (\<lambda>c. c \<noteq> 35) (takeWhile (\<lambda>c. c = 35) (strip line)) = []"
        unfolding filter_empty_conv by (auto dest: set_takeWhileD)
      then show ?thesis unfolding replace_del_def filter_append by simp
    qed
    also have "\<dots> = ?r"
      using that replace_del_clean [of ?r] by (simp add: spec_header_text_def)
    finally show ?thesis
      by (simp add: header_text_of_strip spec_header_text_def)
  qed
  from 1 2 3 show ?thesis by (simp add: header_text_def)
qed

theorem header_text_removes_every_hash_witness:
  "startswith (strip (u ''  ## Intro '')) (u ''#'') \<and>
   35 \<notin> set (spec_header_text (u ''  ## Intro '')) \<and>
   header_text (u ''  ## Intro '') = u ''Intro'' \<and>
   para_paragraph ascii_casing (u ''  ## Intro '') = Paragraph (u ''Intro'') header_style"
proof -
  have h: "startswith (strip (u ''  ## Intro '')) (u ''#'')"
    by (simp add: str_eval)
  have s: "spec_header_text (u ''  ## Intro '') = u ''Intro''"
    by (simp add: spec_header_text_def str_eval)
  have n: "35 \<notin> set (u ''Intro'')"
    by (simp add: u_def)
  note t = header_text_removes_every_hash [OF h, of ascii_casing]
  from t have p: "para_paragraph ascii_casing (u ''  ## Intro '') =
      Paragraph (header_text (u ''  ## Intro '')) header_style"
    and i: "35 \<notin> set (spec_header_text (u ''  ## Intro '')) \<longrightarrow>
      header_text (u ''  ## Intro '') = spec_header_text (u ''  ## Intro '')"
    by blast+
  from i s n have e: "header_text (u ''  ## Intro '') = u ''Intro''" by simp
  from h s n e p show ?thesis by simp
qed

text \<open>
  C7. The spacer test of lines 385-388 asks \<open>isupper()\<close> without the length test of the
  header branch of line 362, so a short uppercase line such as \<open>OK\<close> is laid out as a
  body paragraph and still gets the larger spacer.
\<close>

theorem short_uppercase_line_gets_header_spacer:
  "classify ascii_casing (u ''OK'') = Body \<and>
   para_flowables ascii_casing (u ''OK'') = [Paragraph (u ''OK'') normal_style, Spacer 1 10]"
  by (simp add: para_flowables_def para_paragraph_def para_spacer_def classify_def str_eval)

text \<open>
  C8. The first bullet marker of line 364 is the three-character literal U+00E2 U+20AC
  U+00A2, not the bullet glyph U+2022: a line that starts with the glyph does not take
  the bullet branch, whatever the case tables are, and is laid out as a body paragraph.
\<close>

theorem bullet_glyph_line_is_not_bullet:
  "classify U (8226 # u '' Adopt AI now'') \<noteq> Bullet \<and>
   classify ascii_casing (8226 # u '' Adopt AI now'') = Body \<and>
   para_flowables ascii_casing (8226 # u '' Adopt AI now'') =
     [Paragraph (8226 # u '' Adopt AI now'') normal_style, Spacer 1 6]"
  by (simp add: para_flowables_def para_paragraph_def para_spacer_def classify_def str_eval)

section \<open>Facts about the retry loops\<close>

lemma str_nat_digit: "n < 10 \<Longrightarrow> str_nat n = [48 + n]"
  by (simp add: str_nat.simps)

lemma gc_attempts: "[0..<gc_max_retries] = [0, 1, 2]"
  by (simp add: gc_max_retries_def numeral_eq_Suc)

lemma ps_attempts: "[0..<ps_max_retries] = [0, 1]"
  by (simp add: ps_max_retries_def numeral_eq_Suc)

lemma call_loop_text_at_once:
  assumes "api_result E (length (api_log w)) = Inr c"
  shows "call_loop E p [0..<gc_max_retries] d w = (Broke c, w\<lparr>api_log := api_log w @ [p]\<rparr>)"
  unfolding gc_attempts using assms by simp

lemma call_loop_two_failures_then_text:
  assumes "api_result E (length (api_log w)) = Inl e0"
    and "api_result E (length (api_log w) + 1) = Inl e1"
    and "api_result E (length (api_log w) + 2) = Inr c"
  shows "\<exists>w1. call_loop E p [0..<gc_max_retries] 2 w = (Broke c, w1) \<and>
     effects w1 = effects (w\<lparr>api_log := api_log w @ [p, p, p], sleeps := sleeps w @ [2, 4]\<rparr>)"
  unfolding gc_attempts using assms
  by (simp add: gc_max_retries_def logger_def sleep_def effects_def)

lemma call_loop_three_failures:
  assumes "api_result E (length (api_log w)) = Inl e0"
    and "api_result E (length (api_log w) + 1) = Inl e1"
    and "api_result E (length (api_log w) + 2) = Inl e2"
  shows "\<exists>w1. call_loop E p [0..<gc_max_retries] 2 w =
       (Raised (u ''Failed to generate consultation after 3 attempts: '' @ e2), w1) \<and>
     effects w1 = effects (w\<lparr>api_log := api_log w @ [p, p, p], sleeps := sleeps w @ [2, 4]\<rparr>)"
  unfolding gc_attempts using assms
  by (simp add: gc_max_retries_def logger_def sleep_def effects_def str_nat_digit u_def)

text \<open>The loop over \<open>range(3)\<close> always leaves by \<open>break\<close> or by \<open>raise\<close>.\<close>

lemma call_loop_not_exhausted: "fst (call_loop E p [0..<gc_max_retries] d w) \<noteq> Exhausted"
  unfolding gc_attempts
  by (simp add: gc_max_retries_def Let_def split: sum.splits)


section \<open>generate\_consultation\<close>

lemma startswith_Cons [simp]: "startswith (c # s) (d # p) \<longleftrightarrow> c = d \<and> startswith s p"
  by (auto simp: startswith_def)

lemma startswith_Nil [simp]: "startswith s []"
  by (simp add: startswith_def)

lemma startswith_Nil_left [simp]: "startswith [] (d # p) = False"
  by (simp add: startswith_def)

lemma gc_result_shape:
  assumes "generate_consultation E form_data w = (Inr d, w')"
  shows "\<exists>name. d = [(u ''success'', PBool True), (u ''download_url'', PStr (u ''/download/'' @ name))]"
  using assms
  by (auto simp: generate_consultation_def gc_handler_def Let_def
           split: prod.splits loop_result.splits option.splits)

lemma unlogged_logger:
  "unsuccessful_result_logged (logger l m w) \<longleftrightarrow>
     unsuccessful_result_logged w \<or> startswith m (u ''Consultation generation failed: '')"
  by (auto simp: unsuccessful_result_logged_def logger_def)

lemma unlogged_sleep [simp]: "unsuccessful_result_logged (sleep d w) = unsuccessful_result_logged w"
  by (simp add: unsuccessful_result_logged_def sleep_def)

lemma unlogged_api_log [simp]:
  "unsuccessful_result_logged (w\<lparr>api_log := x\<rparr>) = unsuccessful_result_logged w"
  by (simp add: unsuccessful_result_logged_def)

lemma unlogged_uuid_calls [simp]:
  "unsuccessful_result_logged (w\<lparr>uuid_calls := x\<rparr>) = unsuccessful_result_logged w"
  by (simp add: unsuccessful_result_logged_def)

lemma unlogged_time_calls [simp]:
  "unsuccessful_result_logged (w\<lparr>time_calls := x\<rparr>) = unsuccessful_result_logged w"
  by (simp add: unsuccessful_result_logged_def)

lemma call_loop_unlogged:
  "unsuccessful_result_logged (snd (call_loop E p as d w)) = unsuccessful_result_logged w"
proof (induction as arbitrary: d w)
  case Nil
  show ?case by simp
next
  case (Cons a as)
  show ?case
    by (simp add: Cons.IH Let_def unlogged_logger u_def split: sum.splits)
qed

lemma create_pdf_log: "log (snd (create_pdf E text path name label w)) = log w"
  by (simp add: create_pdf_def Let_def split: option.splits)

lemma create_pdf_unlogged:
  "unsuccessful_result_logged (snd (create_pdf E text path name label w)) = unsuccessful_result_logged w"
  by (simp add: unsuccessful_result_logged_def create_pdf_log)

lemma gc_handler_unlogged:
  "unsuccessful_result_logged (snd (gc_handler e w)) = unsuccessful_result_logged w"
  by (simp add: gc_handler_def unlogged_logger u_def)

lemma unlogged_makedirs_calls [simp]:
  "unsuccessful_result_logged (w\<lparr>makedirs_calls := x\<rparr>) = unsuccessful_result_logged w"
  by (simp add: unsuccessful_result_logged_def)

lemma generate_consultation_unlogged:
  "unsuccessful_result_logged (snd (generate_consultation E form_data w)) = unsuccessful_result_logged w"
proof -
  have c: "unsuccessful_result_logged w1 = unsuccessful_result_logged w"
    if "call_loop E (build_prompt form_data) [0..<gc_max_retries] 2 w = (r, w1)" for r w1
    using call_loop_unlogged [of E "build_prompt form_data" "[0..<gc_max_retries]" 2 w] that by simp
  have p: "unsuccessful_result_logged w4 = unsuccessful_result_logged w3"
    if "create_pdf E doc path name label w3 = (err, w4)" for doc path name label w3 err w4
    using create_pdf_unlogged [of E doc path name label w3] that by simp
  show ?thesis
    by (auto simp: generate_consultation_def Let_def gc_handler_unlogged
             dest!: c p split: prod.splits loop_result.splits option.splits)
qed

section \<open>payment\_success\<close>

lemma attempt_loop_timeout:
  assumes "time_read E (time_calls w) - start_time > timeout_limit"
  shows "attempt_loop E form_data start_time (attempt # rest) retry_delay w =
     (Some processing_response,
      logger WARNING (u ''Approaching timeout limit, returning processing status'')
        (w\<lparr>time_calls := time_calls w + 1\<rparr>))"
  using assms by simp

lemma attempt_loop_success:
  assumes "\<not> time_read E (time_calls w) - start_time > timeout_limit"
    and "generate_consultation E form_data (w\<lparr>time_calls := time_calls w + 1\<rparr>) = (Inr d, w2)"
  shows "attempt_loop E form_data start_time (attempt # rest) retry_delay w = (Some (d, 200), w2)"
  using assms gc_result_shape [OF assms(2)]
  by (auto simp: dict_get_def u_def)

lemma attempt_loop_raise_retry:
  assumes "\<not> time_read E (time_calls w) - start_time > timeout_limit"
    and "generate_consultation E form_data (w\<lparr>time_calls := time_calls w + 1\<rparr>) = (Inl e, w2)"
    and "attempt < ps_max_retries - 1"
  shows "attempt_loop E form_data start_time (attempt # rest) retry_delay w =
     attempt_loop E form_data start_time rest (retry_delay * 2)
       (logger INFO (retry_note attempt) (sleep retry_delay
          (logger ERROR (u ''Consultation generation exception (attempt ''
             @ str_nat (attempt + 1) @ u ''/'' @ str_nat ps_max_retries @ u ''): '' @ e) w2)))"
  using assms by simp

lemma attempt_loop_raise_last:
  assumes "\<not> time_read E (time_calls w) - start_time > timeout_limit"
    and "generate_consultation E form_data (w\<lparr>time_calls := time_calls w + 1\<rparr>) = (Inl e, w2)"
    and "\<not> attempt < ps_max_retries - 1"
  shows "attempt_loop E form_data start_time (attempt # rest) retry_delay w =
     (Some ([(u ''error'', PStr (u ''Consultation generation failed after ''
               @ str_nat ps_max_retries @ u '' attempts: '' @ e))], 500),
      logger ERROR (u ''Consultation generation exception (attempt ''
             @ str_nat (attempt + 1) @ u ''/'' @ str_nat ps_max_retries @ u ''): '' @ e) w2)"
  using assms by simp

lemma attempt_loop_unlogged:
  "\<not> unsuccessful_result_logged w \<Longrightarrow>
   \<not> unsuccessful_result_logged (snd (attempt_loop E form_data start_time as d w))"
proof (induction as arbitrary: d w)
  case Nil
  then show ?case by simp
next
  case (Cons a as)
  let ?w1 = "w\<lparr>time_calls := time_calls w + 1\<rparr>"
  show ?case
  proof (cases "time_read E (time_calls w) - start_time > timeout_limit")
    case True
    from Cons.prems show ?thesis
      unfolding attempt_loop_timeout [OF True] by (simp add: unlogged_logger u_def)
  next
    case False
    obtain r w2 where g: "generate_consultation E form_data ?w1 = (r, w2)"
      by (cases "generate_consultation E form_data ?w1")
    have w2: "\<not> unsuccessful_result_logged w2"
      using generate_consultation_unlogged [of E form_data ?w1] g Cons.prems by simp
    show ?thesis
    proof (cases r)
      case (Inr dres)
      with g w2 show ?thesis
        unfolding attempt_loop_success [OF False g [unfolded Inr]] by simp
    next
      case (Inl e)
      note g' = g [unfolded Inl]
      let ?w3 = "logger ERROR (u ''Consultation generation exception (attempt ''
             @ str_nat (a + 1) @ u ''/'' @ str_nat ps_max_retries @ u ''): '' @ e) w2"
      have w3: "\<not> unsuccessful_result_logged ?w3"
        using w2 by (simp add: unlogged_logger u_def)
      show ?thesis
      proof (cases "a < ps_max_retries - 1")
        case True
        have "\<not> unsuccessful_result_logged (logger INFO (retry_note a) (sleep d ?w3))"
          using w3 by (simp add: unlogged_logger retry_note_def u_def)
        from Cons.IH [OF this] show ?thesis
          unfolding attempt_loop_raise_retry [OF False g' True] .
      next
        case last: False
        from w3 show ?thesis
          unfolding attempt_loop_raise_last [OF False g' last] by simp
      qed
    qed
  qed
qed

lemma payment_success_unlogged:
  assumes "\<not> unsuccessful_result_logged w"
  shows "\<not> unsuccessful_result_logged (snd (payment_success E session_id w))"
proof (cases "session_retrieve E session_id")
  case (StripeError e)
  with assms show ?thesis
    by (simp add: payment_success_def unlogged_logger u_def)
next
  case (OtherError e)
  with assms show ?thesis
    by (simp add: payment_success_def unlogged_logger u_def)
next
  case (FormData form_data)
  have "\<not> unsuccessful_result_logged (w\<lparr>time_calls := time_calls w + 1\<rparr>)"
    using assms by simp
  from attempt_loop_unlogged [OF this] FormData show ?thesis
    by (simp add: payment_success_def)
qed


lemma gc_raised:
  assumes "call_loop E (build_prompt form_data) [0..<gc_max_retries] 2 w = (Raised m, w1)"
  shows "generate_consultation E form_data w = gc_handler m w1"
  using assms by (simp add: generate_consultation_def)

lemma gc_makedirs_fails:
  assumes "call_loop E (build_prompt form_data) [0..<gc_max_retries] 2 w = (Broke t, w1)"
    and "makedirs_outcome E form_data w1 = Some e"
  shows "generate_consultation E form_data w =
     gc_handler e (w1\<lparr>uuid_calls := uuid_calls w1 + 1, makedirs_calls := makedirs_calls w1 + 1\<rparr>)"
  using assms
  by (simp add: generate_consultation_def makedirs_outcome_def pdf_path_def Let_def)

text \<open>
  When \<open>os.makedirs\<close> raises, \<open>generate_consultation\<close> raises without calling
  \<open>create_pdf\<close>.
\<close>

lemma makedirs_failure_raises:
  assumes "call_loop E (build_prompt form_data) [0..<gc_max_retries] 2 w = (Broke t, w1)"
    and "makedirs_outcome E form_data w1 = Some e"
  shows "fst (generate_consultation E form_data w) = Inl (u ''Failed to generate consultation: '' @ e) \<and>
         pdf_calls (snd (generate_consultation E form_data w)) = pdf_calls w1 \<and>
         files (snd (generate_consultation E form_data w)) = files w1"
  unfolding gc_makedirs_fails [OF assms] by (simp add: gc_handler_def logger_def)

lemma gc_build_fails:
  assumes "call_loop E (build_prompt form_data) [0..<gc_max_retries] 2 w = (Broke (Some t), w1)"
    and "makedirs_outcome E form_data w1 = None"
    and "build_result E (pdf_calls w1) = Some e"
  shows "generate_consultation E form_data w =
     gc_handler e (w1\<lparr>uuid_calls := uuid_calls w1 + 1, makedirs_calls := makedirs_calls w1 + 1,
                      pdf_calls := pdf_calls w1 + 1\<rparr>)"
  using assms
  by (simp add: generate_consultation_def makedirs_outcome_def pdf_path_def create_pdf_def Let_def)

lemma gc_build_ok:
  assumes "call_loop E (build_prompt form_data) [0..<gc_max_retries] 2 w = (Broke (Some t), w1)"
    and "makedirs_outcome E form_data w1 = None"
    and "build_result E (pdf_calls w1) = None"
  shows "generate_consultation E form_data w =
     (Inr [(u ''success'', PBool True),
           (u ''download_url'', PStr (u ''/download/'' @
              pdf_filename (dict_get form_data (u ''consultancy_type'')) (take 8 (uuid_hex E (uuid_calls w1)))))],
      w1\<lparr>uuid_calls := uuid_calls w1 + 1, makedirs_calls := makedirs_calls w1 + 1,
         pdf_calls := pdf_calls w1 + 1,
         files := files w1 @
           [(pdf_path E form_data w1,
             create_pdf_content (casing_db E) (today E) t
               (fmt_opt (dict_get form_data (u ''business_name'')))
               (type_label (dict_get form_data (u ''consultancy_type'')) (u ''AI Consultancy Report'')))]\<rparr>)"
  using assms
  by (simp add: generate_consultation_def makedirs_outcome_def pdf_path_def create_pdf_def Let_def)

lemma makedirs_outcome_cong:
  "uuid_calls a = uuid_calls b \<Longrightarrow> makedirs_calls a = makedirs_calls b \<Longrightarrow>
   makedirs_outcome E form_data a = makedirs_outcome E form_data b"
  by (simp add: makedirs_outcome_def pdf_path_def)

lemma pdf_path_cong:
  "uuid_calls a = uuid_calls b \<Longrightarrow> pdf_path E form_data a = pdf_path E form_data b"
  by (simp add: pdf_path_def)

lemma effects_fields:
  "effects a = effects b \<longleftrightarrow>
     api_log a = api_log b \<and> sleeps a = sleeps b \<and> time_calls a = time_calls b \<and>
     uuid_calls a = uuid_calls b \<and> makedirs_calls a = makedirs_calls b \<and>
     pdf_calls a = pdf_calls b \<and> files a = files b"
  by (auto simp: effects_def)

section \<open>The claims about the two retry loops\<close>

lemma replicate_2: "replicate 2 x = [x, x]"
  by (simp add: numeral_2_eq_2)

lemma replicate_3: "replicate 3 x = [x, x, x]"
  by (simp add: numeral_3_eq_3)

lemma replicate_6: "replicate 6 x = [x, x, x, x, x, x]"
  by (simp add: numeral_eq_Suc)

text \<open>
  C9. Whatever the form data and the environment, a dictionary returned by
  \<open>generate_consultation\<close> has \<open>success\<close> = \<open>True\<close> and a \<open>download_url\<close>; every
  other path raises. So \<open>payment_success\<close> never enters the branch for an unsuccessful
  result: the error that this branch starts by logging never appears in the log.
\<close>

theorem generate_consultation_never_returns_failure:
  "(generate_consultation E form_data w = (Inr d, w') \<longrightarrow>
      dict_get d (u ''success'') = Some (PBool True) \<and>
      (\<exists>url. dict_get d (u ''download_url'') = Some (PStr url))) \<and>
   (\<not> unsuccessful_result_logged w \<longrightarrow>
      \<not> unsuccessful_result_logged (snd (payment_success E session_id w)))"
proof -
  have "dict_get d (u ''success'') = Some (PBool True) \<and>
      (\<exists>url. dict_get d (u ''download_url'') = Some (PStr url))"
    if "generate_consultation E form_data w = (Inr d, w')"
    using gc_result_shape [OF that] by (auto simp: dict_get_def u_def)
  then show ?thesis using payment_success_unlogged by blast
qed

text \<open>
  C5. When the elapsed time read at the start of an outer attempt exceeds the 25-second
  limit, the loop returns the 202 "still being generated" response at once, and the only
  effect of the attempt is the clock read: the service is not called. For the first
  attempt this is the response of \<open>payment_success\<close> itself.
\<close>

theorem budget_exceeded_returns_processing:
  "(time_read E (time_calls w) - start_time > timeout_limit \<longrightarrow>
      fst (attempt_loop E form_data start_time (attempt # rest) retry_delay w) = Some processing_response \<and>
      effects (snd (attempt_loop E form_data start_time (attempt # rest) retry_delay w)) =
        effects (w\<lparr>time_calls := time_calls w + 1\<rparr>)) \<and>
   (session_retrieve E session_id = FormData form_data \<and>
    time_read E (time_calls w + 1) - time_read E (time_calls w) > timeout_limit \<longrightarrow>
      fst (payment_success E session_id w) = Some processing_response \<and>
      api_log (snd (payment_success E session_id w)) = api_log w) \<and>
   snd processing_response = 202"
  by (simp add: payment_success_def ps_attempts timeout_limit_def processing_response_def
        effects_def logger_def)


text \<open>
  C4. When the service call fails twice and the third call returns text (and the
  directory of the file can be made and the typesetter accepts the document),
  \<open>generate_consultation\<close> returns the successful result with its download reference,
  after three service calls and sleeps of 2 and 4 seconds, and \<open>create_pdf\<close> has been
  called exactly once, writing the one file.
\<close>

theorem two_failures_then_success:
  assumes "api_result E (length (api_log w)) = Inl e0"
    and "api_result E (length (api_log w) + 1) = Inl e1"
    and "api_result E (length (api_log w) + 2) = Inr (Some doc)"
    and "makedirs_outcome E form_data w = None"
    and "build_result E (pdf_calls w) = None"
  shows "\<exists>w' content.
         generate_consultation E form_data w =
           (Inr [(u ''success'', PBool True),
                 (u ''download_url'', PStr (u ''/download/'' @
                    pdf_filename (dict_get form_data (u ''consultancy_type''))
                      (take 8 (uuid_hex E (uuid_calls w)))))], w') \<and>
         api_log w' = api_log w @ replicate 3 (build_prompt form_data) \<and>
         sleeps w' = sleeps w @ [2, 4] \<and>
         pdf_calls w' = pdf_calls w + 1 \<and>
         files w' = files w @
           [(path_join (download_folder E)
               (pdf_filename (dict_get form_data (u ''consultancy_type''))
                  (take 8 (uuid_hex E (uuid_calls w)))), content)]"
proof -
  obtain w1 where c: "call_loop E (build_prompt form_data) [0..<gc_max_retries] 2 w = (Broke (Some doc), w1)"
    and e: "effects w1 = effects (w\<lparr>api_log := api_log w @ replicate 3 (build_prompt form_data),
                sleeps := sleeps w @ [2, 4]\<rparr>)"
    using call_loop_two_failures_then_text [OF assms(1-3)] by (auto simp: replicate_3)
  from e have u: "uuid_calls w1 = uuid_calls w" and m: "makedirs_calls w1 = makedirs_calls w"
    by (simp_all add: effects_fields)
  have mk: "makedirs_outcome E form_data w1 = None"
    using makedirs_outcome_cong [OF u m] assms(4) by simp
  from e assms(5) have b: "build_result E (pdf_calls w1) = None"
    by (simp add: effects_fields)
  show ?thesis
    unfolding gc_build_ok [OF c mk b] using e by (simp add: effects_fields pdf_path_def)
qed

text \<open>
  C10. Form data without a \<open>consultancy_type\<close> key does not make the generation fail:
  when the service returns text and the typesetter accepts it, the result is successful,
  the prompt names the default label \<open>AI Consultancy\<close>, the title paragraph of the
  document is the default \<open>AI Consultancy Report\<close> (in upper case), and the file name is
  \<open>None_\<close>, the first 8 characters of the hexadecimal identifier, and \<open>.pdf\<close>.
\<close>

theorem missing_consultancy_type:
  assumes "dict_get form_data (u ''consultancy_type'') = None"
    and "api_result E (length (api_log w)) = Inr (Some doc)"
    and "build_result E (pdf_calls w) = None"
  shows "\<exists>w' content.
     generate_consultation E form_data w =
       (Inr [(u ''success'', PBool True),
             (u ''download_url'',
              PStr (u ''/download/None_'' @ take 8 (uuid_hex E (uuid_calls w)) @ u ''.pdf''))], w') \<and>
     api_log w' = api_log w @ [build_prompt form_data] \<and>
     startswith (build_prompt form_data) (u ''Generate a comprehensive AI Consultancy report for '') \<and>
     files w' = files w @
       [(path_join (download_folder E) (u ''None_'' @ take 8 (uuid_hex E (uuid_calls w)) @ u ''.pdf''),
         Paragraph (str_upper (casing_db E) (u ''AI Consultancy Report'')) title_style # content)] \<and>
     (length (uuid_hex E (uuid_calls w)) = 32 \<longrightarrow> length (take 8 (uuid_hex E (uuid_calls w))) = 8)"
proof -
  let ?w1 = "w\<lparr>api_log := api_log w @ [build_prompt form_data]\<rparr>"
  have c: "call_loop E (build_prompt form_data) [0..<gc_max_retries] 2 w = (Broke (Some doc), ?w1)"
    by (rule call_loop_text_at_once [OF assms(2)])
  have b: "build_result E (pdf_calls ?w1) = None"
    using assms(3) by simp
  have mk: "makedirs_outcome E form_data ?w1 = None"
    by (rule makedirs_outcome_no_type [OF assms(1)])
  have p: "startswith (build_prompt form_data) (u ''Generate a comprehensive AI Consultancy report for '')"
    using assms(1) by (simp add: build_prompt_def type_label_def u_def)
  show ?thesis
    unfolding gc_build_ok [OF c mk b] using assms(1) p
    by (simp add: pdf_path_def pdf_filename_def type_label_def create_pdf_content_def u_def)
qed

lemma gc_all_fail:
  assumes "\<And>n. api_result E n = Inl (err n)"
  shows "\<exists>w1. generate_consultation E form_data w =
      (Inl (u ''Failed to generate consultation: Failed to generate consultation after 3 attempts: ''
            @ err (length (api_log w) + 2)), w1) \<and>
     effects w1 = effects (w\<lparr>api_log := api_log w @ replicate 3 (build_prompt form_data),
                              sleeps := sleeps w @ [2, 4]\<rparr>)"
proof -
  obtain w1 where c: "call_loop E (build_prompt form_data) [0..<gc_max_retries] 2 w =
       (Raised (u ''Failed to generate consultation after 3 attempts: '' @ err (length (api_log w) + 2)), w1)"
    and e: "effects w1 = effects (w\<lparr>api_log := api_log w @ replicate 3 (build_prompt form_data),
                sleeps := sleeps w @ [2, 4]\<rparr>)"
    using call_loop_three_failures [OF assms assms assms] by (auto simp: replicate_3)
  show ?thesis
    unfolding gc_raised [OF c] using e
    by (simp add: gc_handler_def logger_def effects_fields u_def)
qed

lemma attempt_loop_all_fail_no_pdf:
  assumes "\<And>n. api_result E n = Inl (err n)"
  shows "pdf_calls (snd (attempt_loop E form_data start_time as d w)) = pdf_calls w \<and>
         files (snd (attempt_loop E form_data start_time as d w)) = files w"
proof (induction as arbitrary: d w)
  case Nil
  show ?case by simp
next
  case (Cons a as)
  let ?w1 = "w\<lparr>time_calls := time_calls w + 1\<rparr>"
  show ?case
  proof (cases "time_read E (time_calls w) - start_time > timeout_limit")
    case True
    show ?thesis
      unfolding attempt_loop_timeout [OF True] by (simp add: logger_def)
  next
    case False
    obtain m w2 where g: "generate_consultation E form_data ?w1 = (Inl m, w2)"
      and e: "effects w2 = effects (?w1\<lparr>api_log := api_log ?w1 @ replicate 3 (build_prompt form_data),
                              sleeps := sleeps ?w1 @ [2, 4]\<rparr>)"
      using gc_all_fail [OF assms, of form_data ?w1] by blast
    show ?thesis
    proof (cases "a < ps_max_retries - 1")
      case True
      let ?w3 = "logger INFO (retry_note a) (sleep d
          (logger ERROR (u ''Consultation generation exception (attempt ''
             @ str_nat (a + 1) @ u ''/'' @ str_nat ps_max_retries @ u ''): '' @ m) w2))"
      have "pdf_calls (snd (attempt_loop E form_data start_time as (d * 2) ?w3)) = pdf_calls ?w3 \<and>
            files (snd (attempt_loop E form_data start_time as (d * 2) ?w3)) = files ?w3"
        by (rule Cons.IH)
      moreover have "pdf_calls ?w3 = pdf_calls w \<and> files ?w3 = files w"
        using e by (simp add: logger_def sleep_def effects_fields)
      ultimately show ?thesis
        unfolding attempt_loop_raise_retry [OF False g True] by simp
    next
      case last: False
      show ?thesis
        unfolding attempt_loop_raise_last [OF False g last]
        using e by (simp add: logger_def effects_fields)
    qed
  qed
qed

text \<open>
  C3. When every call of the service fails, \<open>payment_success\<close> never calls \<open>create_pdf\<close>
  and writes no file; and when both outer attempts run (the time limit is not exceeded
  at either check), all six calls are made and the response is the 500 error carrying
  the detail of the last failure.
\<close>

theorem all_generation_attempts_fail:
  assumes fail: "\<And>n. api_result E n = Inl (err n)"
    and sess: "session_retrieve E session_id = FormData form_data"
  shows "pdf_calls (snd (payment_success E session_id w)) = pdf_calls w \<and>
         files (snd (payment_success E session_id w)) = files w \<and>
         (time_read E (time_calls w + 1) - time_read E (time_calls w) \<le> timeout_limit \<and>
          time_read E (time_calls w + 2) - time_read E (time_calls w) \<le> timeout_limit \<longrightarrow>
            fst (payment_success E session_id w) =
              Some ([(u ''error'', PStr (u ''Consultation generation failed after 2 attempts: Failed to generate consultation: Failed to generate consultation after 3 attempts: ''
                        @ err (length (api_log w) + 5)))], 500) \<and>
            api_log (snd (payment_success E session_id w)) = api_log w @ replicate 6 (build_prompt form_data) \<and>
            sleeps (snd (payment_success E session_id w)) = sleeps w @ [2, 4, 1, 2, 4])"
proof -
  let ?st = "time_read E (time_calls w)"
  let ?w0 = "w\<lparr>time_calls := time_calls w + 1\<rparr>"
  have ps: "payment_success E session_id w = attempt_loop E form_data ?st [0, 1] 1 ?w0"
    using sess by (simp add: payment_success_def ps_attempts)
  have a: "pdf_calls (snd (payment_success E session_id w)) = pdf_calls w \<and>
         files (snd (payment_success E session_id w)) = files w"
    unfolding ps using attempt_loop_all_fail_no_pdf [OF fail, of form_data ?st "[0, 1]" 1 ?w0]
    by simp
  have b: "fst (payment_success E session_id w) =
              Some ([(u ''error'', PStr (u ''Consultation generation failed after 2 attempts: Failed to generate consultation: Failed to generate consultation after 3 attempts: ''
                        @ err (length (api_log w) + 5)))], 500) \<and>
            api_log (snd (payment_success E session_id w)) = api_log w @ replicate 6 (build_prompt form_data) \<and>
            sleeps (snd (payment_success E session_id w)) = sleeps w @ [2, 4, 1, 2, 4]"
    if t1: "time_read E (time_calls w + 1) - ?st \<le> timeout_limit"
      and t2: "time_read E (time_calls w + 2) - ?st \<le> timeout_limit"
  proof -
    let ?w1 = "?w0\<lparr>time_calls := time_calls ?w0 + 1\<rparr>"
    have n1: "\<not> time_read E (time_calls ?w0) - ?st > timeout_limit"
      using t1 by simp
    obtain m1 w2 where g1: "generate_consultation E form_data ?w1 = (Inl m1, w2)"
      and e1: "effects w2 = effects (?w1\<lparr>api_log := api_log ?w1 @ replicate 3 (build_prompt form_data),
                              sleeps := sleeps ?w1 @ [2, 4]\<rparr>)"
      using gc_all_fail [OF fail, of form_data ?w1] by blast
    let ?w3 = "logger INFO (retry_note 0) (sleep 1
          (logger ERROR (u ''Consultation generation exception (attempt ''
             @ str_nat (0 + 1) @ u ''/'' @ str_nat ps_max_retries @ u ''): '' @ m1) w2))"
    have r1: "attempt_loop E form_data ?st [0, 1] 1 ?w0 = attempt_loop E form_data ?st [1] (1 * 2) ?w3"
      by (rule attempt_loop_raise_retry [OF n1 g1]) (simp add: ps_max_retries_def)
    have e3: "effects ?w3 = effects (w\<lparr>api_log := api_log w @ replicate 3 (build_prompt form_data),
                  sleeps := sleeps w @ [2, 4, 1], time_calls := time_calls w + 2\<rparr>)"
      using e1 by (simp add: effects_fields logger_def sleep_def)
    let ?w4 = "?w3\<lparr>time_calls := time_calls ?w3 + 1\<rparr>"
    have n2: "\<not> time_read E (time_calls ?w3) - ?st > timeout_limit"
      using t2 e3 by (simp add: effects_fields)
    obtain w5 where g2: "generate_consultation E form_data ?w4 =
        (Inl (u ''Failed to generate consultation: Failed to generate consultation after 3 attempts: ''
            @ err (length (api_log ?w4) + 2)), w5)"
      and e5: "effects w5 = effects (?w4\<lparr>api_log := api_log ?w4 @ replicate 3 (build_prompt form_data),
                              sleeps := sleeps ?w4 @ [2, 4]\<rparr>)"
      using gc_all_fail [OF fail, of form_data ?w4] by blast
    have l4: "length (api_log ?w4) + 2 = length (api_log w) + 5"
      using e3 by (simp add: effects_fields)
    have r2: "attempt_loop E form_data ?st [1] (1 * 2) ?w3 =
       (Some ([(u ''error'', PStr (u ''Consultation generation failed after ''
               @ str_nat ps_max_retries @ u '' attempts: ''
               @ u ''Failed to generate consultation: Failed to generate consultation after 3 attempts: ''
               @ err (length (api_log ?w4) + 2)))], 500),
        logger ERROR (u ''Consultation generation exception (attempt ''
             @ str_nat (1 + 1) @ u ''/'' @ str_nat ps_max_retries @ u ''): ''
             @ u ''Failed to generate consultation: Failed to generate consultation after 3 attempts: ''
             @ err (length (api_log ?w4) + 2)) w5)"
      by (rule attempt_loop_raise_last [OF n2 g2]) (simp add: ps_max_retries_def)
    have e5': "api_log w5 = api_log w @ replicate 6 (build_prompt form_data) \<and>
               sleeps w5 = sleeps w @ [2, 4, 1, 2, 4]"
      using e5 e3 by (simp add: effects_fields replicate_2 replicate_3 replicate_6)
    show ?thesis
      unfolding ps r1 r2 l4 using e5'
      by (simp add: logger_def ps_max_retries_def str_nat_digit u_def)
  qed
  from a b show ?thesis by blast
qed




lemma gc_render_fails:
  assumes "api_result E (length (api_log w)) = Inr (Some doc)"
    and "makedirs_outcome E form_data w = None"
    and "build_result E (pdf_calls w) = Some e"
  shows "\<exists>w1. generate_consultation E form_data w =
       (Inl (u ''Failed to generate consultation: '' @ e), w1) \<and>
     effects w1 = effects (w\<lparr>api_log := api_log w @ [build_prompt form_data],
                 uuid_calls := uuid_calls w + 1, makedirs_calls := makedirs_calls w + 1,
                 pdf_calls := pdf_calls w + 1\<rparr>)"
proof -
  let ?w1 = "w\<lparr>api_log := api_log w @ [build_prompt form_data]\<rparr>"
  have c: "call_loop E (build_prompt form_data) [0..<gc_max_retries] 2 w = (Broke (Some doc), ?w1)"
    by (rule call_loop_text_at_once [OF assms(1)])
  have mk: "makedirs_outcome E form_data ?w1 = None"
    using makedirs_outcome_cong [of ?w1 w] assms(2) by simp
  have b: "build_result E (pdf_calls ?w1) = Some e"
    using assms(3) by simp
  show ?thesis
    unfolding gc_build_fails [OF c mk b]
    by (simp add: gc_handler_def logger_def effects_fields)
qed

lemma gc_render_ok:
  assumes "api_result E (length (api_log w)) = Inr (Some doc)"
    and "makedirs_outcome E form_data w = None"
    and "build_result E (pdf_calls w) = None"
  shows "\<exists>w1 content. generate_consultation E form_data w =
       (Inr [(u ''success'', PBool True),
             (u ''download_url'', PStr (u ''/download/'' @
                pdf_filename (dict_get form_data (u ''consultancy_type'')) (take 8 (uuid_hex E (uuid_calls w)))))],
        w1) \<and>
     effects w1 = effects (w\<lparr>api_log := api_log w @ [build_prompt form_data],
                 uuid_calls := uuid_calls w + 1, makedirs_calls := makedirs_calls w + 1,
                 pdf_calls := pdf_calls w + 1,
                 files := files w @ [(pdf_path E form_data w, content)]\<rparr>)"
proof -
  let ?w1 = "w\<lparr>api_log := api_log w @ [build_prompt form_data]\<rparr>"
  have c: "call_loop E (build_prompt form_data) [0..<gc_max_retries] 2 w = (Broke (Some doc), ?w1)"
    by (rule call_loop_text_at_once [OF assms(1)])
  have mk: "makedirs_outcome E form_data ?w1 = None"
    using makedirs_outcome_cong [of ?w1 w] assms(2) by simp
  have b: "build_result E (pdf_calls ?w1) = None"
    using assms(3) by simp
  show ?thesis
    unfolding gc_build_ok [OF c mk b]
    by (simp add: effects_fields pdf_path_def)
qed

text \<open>
  The first outer attempt when the typesetter rejects its document: the exception is
  logged, the loop sleeps one second and goes on to the second attempt.
\<close>

lemma first_attempt_render_failure:
  assumes sess: "session_retrieve E session_id = FormData form_data"
    and t1: "time_read E (time_calls w + 1) - time_read E (time_calls w) \<le> timeout_limit"
    and a1: "api_result E (length (api_log w)) = Inr (Some doc1)"
    and m1: "makedirs_outcome E form_data w = None"
    and b1: "build_result E (pdf_calls w) = Some e1"
  shows "\<exists>w3. payment_success E session_id w =
       attempt_loop E form_data (time_read E (time_calls w)) [1] 2 w3 \<and>
     effects w3 = effects (w\<lparr>api_log := api_log w @ [build_prompt form_data],
                 sleeps := sleeps w @ [1], time_calls := time_calls w + 2,
                 uuid_calls := uuid_calls w + 1, makedirs_calls := makedirs_calls w + 1,
                 pdf_calls := pdf_calls w + 1\<rparr>)"
proof -
  let ?st = "time_read E (time_calls w)"
  let ?w0 = "w\<lparr>time_calls := time_calls w + 1\<rparr>"
  let ?w1 = "?w0\<lparr>time_calls := time_calls ?w0 + 1\<rparr>"
  have ps: "payment_success E session_id w = attempt_loop E form_data ?st [0, 1] 1 ?w0"
    using sess by (simp add: payment_success_def ps_attempts)
  have n1: "\<not> time_read E (time_calls ?w0) - ?st > timeout_limit"
    using t1 by simp
  have mk: "makedirs_outcome E form_data ?w1 = None"
    using makedirs_outcome_cong [of ?w1 w] m1 by simp
  obtain w2 where g1: "generate_consultation E form_data ?w1 =
        (Inl (u ''Failed to generate consultation: '' @ e1), w2)"
    and e2: "effects w2 = effects (?w1\<lparr>api_log := api_log ?w1 @ [build_prompt form_data],
                 uuid_calls := uuid_calls ?w1 + 1, makedirs_calls := makedirs_calls ?w1 + 1,
                 pdf_calls := pdf_calls ?w1 + 1\<rparr>)"
    using gc_render_fails [of E ?w1 doc1 form_data e1] a1 b1 mk by auto
  let ?w3 = "logger INFO (retry_note 0) (sleep 1
          (logger ERROR (u ''Consultation generation exception (attempt ''
             @ str_nat (0 + 1) @ u ''/'' @ str_nat ps_max_retries @ u ''): ''
             @ (u ''Failed to generate consultation: '' @ e1)) w2))"
  have r1: "attempt_loop E form_data ?st [0, 1] 1 ?w0 = attempt_loop E form_data ?st [1] (1 * 2) ?w3"
    by (rule attempt_loop_raise_retry [OF n1 g1]) (simp add: ps_max_retries_def)
  have e3: "effects ?w3 = effects (w\<lparr>api_log := api_log w @ [build_prompt form_data],
                 sleeps := sleeps w @ [1], time_calls := time_calls w + 2,
                 uuid_calls := uuid_calls w + 1, makedirs_calls := makedirs_calls w + 1,
                 pdf_calls := pdf_calls w + 1\<rparr>)"
    using e2 by (simp add: effects_fields logger_def sleep_def)
  from ps r1 e3 show ?thesis by auto
qed

text \<open>
  The typesetter rejects the document of the first attempt and accepts the document of
  the second: the response is the success of the second attempt.
\<close>

lemma render_failure_then_success:
  assumes sess: "session_retrieve E session_id = FormData form_data"
    and t1: "time_read E (time_calls w + 1) - time_read E (time_calls w) \<le> timeout_limit"
    and t2: "time_read E (time_calls w + 2) - time_read E (time_calls w) \<le> timeout_limit"
    and a1: "api_result E (length (api_log w)) = Inr (Some doc1)"
    and a2: "api_result E (length (api_log w) + 1) = Inr (Some doc2)"
    and m1: "makedirs_outcome E form_data w = None"
    and m2: "makedirs_outcome E form_data
               (w\<lparr>uuid_calls := uuid_calls w + 1, makedirs_calls := makedirs_calls w + 1\<rparr>) = None"
    and b1: "build_result E (pdf_calls w) = Some e1"
    and b2: "build_result E (pdf_calls w + 1) = None"
  shows "fst (payment_success E session_id w) =
       Some ([(u ''success'', PBool True),
              (u ''download_url'', PStr (u ''/download/'' @
                 pdf_filename (dict_get form_data (u ''consultancy_type''))
                   (take 8 (uuid_hex E (uuid_calls w + 1)))))], 200) \<and>
     api_log (snd (payment_success E session_id w)) = api_log w @ replicate 2 (build_prompt form_data) \<and>
     sleeps (snd (payment_success E session_id w)) = sleeps w @ [1] \<and>
     pdf_calls (snd (payment_success E session_id w)) = pdf_calls w + 2 \<and>
     length (files (snd (payment_success E session_id w))) = length (files w) + 1"
proof -
  let ?st = "time_read E (time_calls w)"
  obtain w3 where ps: "payment_success E session_id w = attempt_loop E form_data ?st [1] 2 w3"
    and e3: "effects w3 = effects (w\<lparr>api_log := api_log w @ [build_prompt form_data],
                 sleeps := sleeps w @ [1], time_calls := time_calls w + 2,
                 uuid_calls := uuid_calls w + 1, makedirs_calls := makedirs_calls w + 1,
                 pdf_calls := pdf_calls w + 1\<rparr>)"
    using first_attempt_render_failure [OF sess t1 a1 m1 b1] by blast
  let ?w4 = "w3\<lparr>time_calls := time_calls w3 + 1\<rparr>"
  have n2: "\<not> time_read E (time_calls w3) - ?st > timeout_limit"
    using t2 e3 by (simp add: effects_fields)
  have a: "api_result E (length (api_log ?w4)) = Inr (Some doc2)"
    using a2 e3 by (simp add: effects_fields)
  have mk: "makedirs_outcome E form_data ?w4 = None"
    using makedirs_outcome_cong
      [of ?w4 "w\<lparr>uuid_calls := uuid_calls w + 1, makedirs_calls := makedirs_calls w + 1\<rparr>"]
      m2 e3 by (simp add: effects_fields)
  have b: "build_result E (pdf_calls ?w4) = None"
    using b2 e3 by (simp add: effects_fields)
  obtain w5 content where g2: "generate_consultation E form_data ?w4 =
       (Inr [(u ''success'', PBool True),
             (u ''download_url'', PStr (u ''/download/'' @
                pdf_filename (dict_get form_data (u ''consultancy_type'')) (take 8 (uuid_hex E (uuid_calls ?w4)))))],
        w5)"
    and e5: "effects w5 = effects (?w4\<lparr>api_log := api_log ?w4 @ [build_prompt form_data],
                 uuid_calls := uuid_calls ?w4 + 1, makedirs_calls := makedirs_calls ?w4 + 1,
                 pdf_calls := pdf_calls ?w4 + 1,
                 files := files ?w4 @ [(pdf_path E form_data ?w4, content)]\<rparr>)"
    using gc_render_ok [OF a mk b] by blast
  have u4: "uuid_calls ?w4 = uuid_calls w + 1"
    using e3 by (simp add: effects_fields)
  show ?thesis
    unfolding ps attempt_loop_success [OF n2 g2] u4
    using e5 e3 by (simp add: effects_fields replicate_2)
qed

text \<open>
  C2, amended. When the typesetter rejects the document that the service loop of an outer
  attempt has produced (the attempt having started within the time limit, and the
  directory of the file having been made), \<open>generate_consultation\<close> raises at once: after
  the loop it draws the identifier, makes the directory and calls \<open>create_pdf\<close> once,
  with no further service call, no sleep and no file, so the inner loop does not retry.
  The outer loop handles the exception like any other. On its last attempt (the second:
  \<open>max_retries - 1 = 1\<close>) the response is the 500 error with the detail, at once. On its
  first attempt the failure is retried: the loop sleeps for the retry delay and goes on
  to the next attempt, which decides the response. \<open>payment_success\<close> runs the attempts
  0 and 1 with a first delay of one second.
\<close>

theorem render_failure_retried_by_outer_loop_only:
  assumes time: "\<not> time_read E (time_calls w) - start_time > timeout_limit"
    and loop: "call_loop E (build_prompt form_data) [0..<gc_max_retries] 2
                 (w\<lparr>time_calls := time_calls w + 1\<rparr>) = (Broke (Some doc), w1)"
    and mk: "makedirs_outcome E form_data w1 = None"
    and build: "build_result E (pdf_calls w1) = Some e"
  shows "\<exists>w2.
     generate_consultation E form_data (w\<lparr>time_calls := time_calls w + 1\<rparr>) =
       (Inl (u ''Failed to generate consultation: '' @ e), w2) \<and>
     effects w2 = effects (w1\<lparr>uuid_calls := uuid_calls w1 + 1,
                 makedirs_calls := makedirs_calls w1 + 1, pdf_calls := pdf_calls w1 + 1\<rparr>) \<and>
     (\<not> attempt < ps_max_retries - 1 \<longrightarrow>
        fst (attempt_loop E form_data start_time (attempt # rest) retry_delay w) =
          Some ([(u ''error'', PStr (u ''Consultation generation failed after 2 attempts: Failed to generate consultation: '' @ e))], 500) \<and>
        effects (snd (attempt_loop E form_data start_time (attempt # rest) retry_delay w)) = effects w2) \<and>
     (attempt < ps_max_retries - 1 \<longrightarrow>
        (\<exists>w3. attempt_loop E form_data start_time (attempt # rest) retry_delay w =
                attempt_loop E form_data start_time rest (retry_delay * 2) w3 \<and>
              effects w3 = effects (w2\<lparr>sleeps := sleeps w2 @ [retry_delay]\<rparr>))) \<and>
     ps_max_retries - 1 = 1 \<and>
     (session_retrieve E session_id = FormData form_data \<longrightarrow>
        payment_success E session_id w =
          attempt_loop E form_data (time_read E (time_calls w)) [0, 1] 1
            (w\<lparr>time_calls := time_calls w + 1\<rparr>))"
proof -
  let ?w0 = "w\<lparr>time_calls := time_calls w + 1\<rparr>"
  let ?w2 = "snd (gc_handler e (w1\<lparr>uuid_calls := uuid_calls w1 + 1,
                 makedirs_calls := makedirs_calls w1 + 1, pdf_calls := pdf_calls w1 + 1\<rparr>))"
  have g: "generate_consultation E form_data ?w0 =
       (Inl (u ''Failed to generate consultation: '' @ e), ?w2)"
    unfolding gc_build_fails [OF loop mk build] by (simp add: gc_handler_def)
  have e2: "effects ?w2 = effects (w1\<lparr>uuid_calls := uuid_calls w1 + 1,
                 makedirs_calls := makedirs_calls w1 + 1, pdf_calls := pdf_calls w1 + 1\<rparr>)"
    by (simp add: gc_handler_def logger_def effects_fields)
  have last: "fst (attempt_loop E form_data start_time (attempt # rest) retry_delay w) =
          Some ([(u ''error'', PStr (u ''Consultation generation failed after 2 attempts: Failed to generate consultation: '' @ e))], 500) \<and>
        effects (snd (attempt_loop E form_data start_time (attempt # rest) retry_delay w)) = effects ?w2"
    if l: "\<not> attempt < ps_max_retries - 1"
    unfolding attempt_loop_raise_last [OF time g l]
    by (simp add: logger_def effects_fields ps_max_retries_def str_nat_digit u_def)
  have retry: "\<exists>w3. attempt_loop E form_data start_time (attempt # rest) retry_delay w =
                attempt_loop E form_data start_time rest (retry_delay * 2) w3 \<and>
              effects w3 = effects (?w2\<lparr>sleeps := sleeps ?w2 @ [retry_delay]\<rparr>)"
    if r: "attempt < ps_max_retries - 1"
    unfolding attempt_loop_raise_retry [OF time g r]
    by (rule exI, rule conjI, rule refl) (simp add: logger_def sleep_def effects_fields)
  have ps: "payment_success E session_id w =
          attempt_loop E form_data (time_read E (time_calls w)) [0, 1] 1 ?w0"
    if "session_retrieve E session_id = FormData form_data"
    using that by (simp add: payment_success_def ps_attempts)
  have m: "ps_max_retries - 1 = 1"
    by (simp add: ps_max_retries_def)
  from g e2 last retry ps m show ?thesis by blast
qed



section \<open>Runs on concrete environments\<close>

lemmas env_eval = demo_env_def world0_def timeout_limit_def

lemma makedirs_outcome_no_slash:
  assumes "47 \<notin> set (fmt_opt (dict_get form_data (u ''consultancy_type'')))"
  shows "makedirs_outcome E form_data w = None"
proof -
  have "47 \<notin> set (pdf_filename (dict_get form_data (u ''consultancy_type''))
                     (take 8 (uuid_hex E (uuid_calls w))))"
    using assms unique_id_no_slash [of E "uuid_calls w"] by (simp add: pdf_filename_def u_def)
  then show ?thesis
    by (simp add: makedirs_outcome_def pdf_path_def makedirs_def dirname_in_download_folder)
qed

lemma demo_unique_id:
  "uuid_int E n = 19088743 * 16 ^ 24 \<Longrightarrow> take 8 (uuid_hex E n) = u ''01234567''"
  by (simp add: uuid_hex_def take8_hex32 hex_digit_def u_def)

lemma demo_download_folder:
  "cwd E = u ''/app'' \<Longrightarrow> download_folder E = u ''/app/static/downloads''"
  by (simp add: download_folder_def path_join_def startswith_def u_def)

text \<open>
  C2, as stated, fails. With a typesetter that rejects the first document only, the
  exception of the first outer attempt is caught by the outer loop, which sleeps one
  second and runs the generation again: the service and \<open>create_pdf\<close> are each called
  twice and the response is the 200 success, not a 5xx.
\<close>

theorem render_failure_is_retried_counterexample:
  "build_result env_render_fails_once (pdf_calls world0) = Some (u ''boom'') \<and>
   fst (payment_success env_render_fails_once None world0) =
     Some ([(u ''success'', PBool True),
            (u ''download_url'', PStr (u ''/download/None_01234567.pdf''))], 200) \<and>
   length (api_log (snd (payment_success env_render_fails_once None world0))) = 2 \<and>
   pdf_calls (snd (payment_success env_render_fails_once None world0)) = 2 \<and>
   sleeps (snd (payment_success env_render_fails_once None world0)) = [1]"
proof -
  let ?E = env_render_fails_once
  have n: "47 \<notin> set (fmt_opt (dict_get [] (u ''consultancy_type'')))"
    by (simp add: dict_get_def u_def)
  have i: "take 8 (uuid_hex ?E (uuid_calls world0 + 1)) = u ''01234567''"
    by (rule demo_unique_id) (simp add: env_render_fails_once_def demo_env_def)
  from render_failure_then_success
    [of ?E None "[]" world0 "u ''# Plan''" "u ''# Plan''" "u ''boom''",
     OF _ _ _ _ _ makedirs_outcome_no_slash [OF n] makedirs_outcome_no_slash [OF n]]
  show ?thesis
    unfolding i
    by (simp add: env_render_fails_once_def env_eval pdf_filename_def dict_get_def u_def)
qed

text \<open>
  The typesetter rejects every document. A first attempt (attempt 0) is retried after a
  sleep of one second; a last attempt (attempt 1) gives the 500 response.
\<close>

theorem render_failure_retried_by_outer_loop_only_witness:
  "\<not> time_read env_render_fails (time_calls world0) - 0 > timeout_limit \<and>
   call_loop env_render_fails (build_prompt []) [0..<gc_max_retries] 2 (world0\<lparr>time_calls := time_calls world0 + 1\<rparr>) =
     (Broke (Some (u ''# Plan'')), world0\<lparr>time_calls := 1, api_log := [build_prompt []]\<rparr>) \<and>
   makedirs_outcome env_render_fails [] (world0\<lparr>time_calls := 1, api_log := [build_prompt []]\<rparr>) = None \<and>
   build_result env_render_fails (pdf_calls (world0\<lparr>time_calls := 1, api_log := [build_prompt []]\<rparr>)) = Some (u ''boom'') \<and>
   fst (generate_consultation env_render_fails [] (world0\<lparr>time_calls := time_calls world0 + 1\<rparr>)) =
     Inl (u ''Failed to generate consultation: boom'') \<and>
   (0::nat) < ps_max_retries - 1 \<and>
   (\<exists>w3. attempt_loop env_render_fails [] 0 [0, 1] 1 world0 = attempt_loop env_render_fails [] 0 [1] 2 w3 \<and>
         sleeps w3 = [1] \<and> pdf_calls w3 = 1 \<and> api_log w3 = [build_prompt []] \<and> files w3 = []) \<and>
   \<not> (1::nat) < ps_max_retries - 1 \<and>
   fst (attempt_loop env_render_fails [] 0 [1] 2 world0) =
     Some ([(u ''error'', PStr (u ''Consultation generation failed after 2 attempts: Failed to generate consultation: boom''))], 500) \<and>
   sleeps (snd (attempt_loop env_render_fails [] 0 [1] 2 world0)) = [] \<and>
   pdf_calls (snd (attempt_loop env_render_fails [] 0 [1] 2 world0)) = 1 \<and>
   files (snd (attempt_loop env_render_fails [] 0 [1] 2 world0)) = [] \<and>
   session_retrieve env_render_fails None = FormData [] \<and>
   payment_success env_render_fails None world0 =
     attempt_loop env_render_fails [] (time_read env_render_fails (time_calls world0)) [0, 1] 1
       (world0\<lparr>time_calls := time_calls world0 + 1\<rparr>)"
proof -
  let ?E = env_render_fails
  let ?w1 = "world0\<lparr>time_calls := 1, api_log := [build_prompt []]\<rparr>"
  have t: "\<not> time_read ?E (time_calls world0) - 0 > timeout_limit"
    by (simp add: env_render_fails_def env_eval)
  have c: "call_loop ?E (build_prompt []) [0..<gc_max_retries] 2 (world0\<lparr>time_calls := time_calls world0 + 1\<rparr>) =
     (Broke (Some (u ''# Plan'')), ?w1)"
    unfolding gc_attempts by (simp add: env_render_fails_def env_eval)
  have n: "47 \<notin> set (fmt_opt (dict_get [] (u ''consultancy_type'')))"
    by (simp add: dict_get_def u_def)
  have m: "makedirs_outcome ?E [] ?w1 = None"
    by (rule makedirs_outcome_no_slash [OF n])
  have b: "build_result ?E (pdf_calls ?w1) = Some (u ''boom'')"
    by (simp add: env_render_fails_def env_eval)
  have s: "session_retrieve ?E None = FormData []"
    by (simp add: env_render_fails_def env_eval)
  have p: "(0::nat) < ps_max_retries - 1" "\<not> (1::nat) < ps_max_retries - 1"
    by (simp_all add: ps_max_retries_def)
  have a: "u ''Failed to generate consultation: '' @ u ''boom'' = u ''Failed to generate consultation: boom''"
    "u ''Consultation generation failed after 2 attempts: Failed to generate consultation: '' @ u ''boom''
      = u ''Consultation generation failed after 2 attempts: Failed to generate consultation: boom''"
    by (simp_all add: u_def)
  from render_failure_retried_by_outer_loop_only [OF t c m b, of 0 "[1]" 1 None]
  obtain w2 where g: "generate_consultation ?E [] (world0\<lparr>time_calls := time_calls world0 + 1\<rparr>) =
       (Inl (u ''Failed to generate consultation: '' @ u ''boom''), w2)"
    and e2: "effects w2 = effects (?w1\<lparr>uuid_calls := uuid_calls ?w1 + 1,
                 makedirs_calls := makedirs_calls ?w1 + 1, pdf_calls := pdf_calls ?w1 + 1\<rparr>)"
    and r: "\<exists>w3. attempt_loop ?E [] 0 [0, 1] 1 world0 = attempt_loop ?E [] 0 [1] (1 * 2) w3 \<and>
              effects w3 = effects (w2\<lparr>sleeps := sleeps w2 @ [1]\<rparr>)"
    and ps: "payment_success ?E None world0 =
          attempt_loop ?E [] (time_read ?E (time_calls world0)) [0, 1] 1
            (world0\<lparr>time_calls := time_calls world0 + 1\<rparr>)"
    using p s by auto
  from render_failure_retried_by_outer_loop_only [OF t c m b, of 1 "[]" 2 None]
  obtain w2' where g': "generate_consultation ?E [] (world0\<lparr>time_calls := time_calls world0 + 1\<rparr>) =
       (Inl (u ''Failed to generate consultation: '' @ u ''boom''), w2')"
    and e2': "effects w2' = effects (?w1\<lparr>uuid_calls := uuid_calls ?w1 + 1,
                 makedirs_calls := makedirs_calls ?w1 + 1, pdf_calls := pdf_calls ?w1 + 1\<rparr>)"
    and l: "fst (attempt_loop ?E [] 0 [1] 2 world0) =
          Some ([(u ''error'', PStr (u ''Consultation generation failed after 2 attempts: Failed to generate consultation: '' @ u ''boom''))], 500)"
      "effects (snd (attempt_loop ?E [] 0 [1] 2 world0)) = effects w2'"
    using p by auto
  from r e2 have r': "\<exists>w3. attempt_loop ?E [] 0 [0, 1] 1 world0 = attempt_loop ?E [] 0 [1] 2 w3 \<and>
         sleeps w3 = [1] \<and> pdf_calls w3 = 1 \<and> api_log w3 = [build_prompt []] \<and> files w3 = []"
    by (auto simp: effects_fields world0_def)
  from l e2' have l': "sleeps (snd (attempt_loop ?E [] 0 [1] 2 world0)) = []"
    "pdf_calls (snd (attempt_loop ?E [] 0 [1] 2 world0)) = 1"
    "files (snd (attempt_loop ?E [] 0 [1] 2 world0)) = []"
    by (simp_all add: effects_fields world0_def)
  from g have g1: "fst (generate_consultation ?E [] (world0\<lparr>time_calls := time_calls world0 + 1\<rparr>)) =
     Inl (u ''Failed to generate consultation: boom'')"
    unfolding a by simp
  from t c m b g1 p r' l(1) l' s ps show ?thesis
    unfolding a by blast
qed

text \<open>The service is down: six calls, five sleeps, no document.\<close>

theorem all_generation_attempts_fail_witness:
  "(\<forall>n. api_result env_service_down n = Inl (u ''timeout'')) \<and>
   session_retrieve env_service_down None = FormData [] \<and>
   time_read env_service_down (time_calls world0 + 1) - time_read env_service_down (time_calls world0) \<le> timeout_limit \<and>
   time_read env_service_down (time_calls world0 + 2) - time_read env_service_down (time_calls world0) \<le> timeout_limit \<and>
   fst (payment_success env_service_down None world0) =
     Some ([(u ''error'', PStr (u ''Consultation generation failed after 2 attempts: Failed to generate consultation: Failed to generate consultation after 3 attempts: timeout''))], 500) \<and>
   length (api_log (snd (payment_success env_service_down None world0))) = 6 \<and>
   sleeps (snd (payment_success env_service_down None world0)) = [2, 4, 1, 2, 4] \<and>
   pdf_calls (snd (payment_success env_service_down None world0)) = 0 \<and>
   files (snd (payment_success env_service_down None world0)) = []"
  using all_generation_attempts_fail
    [of env_service_down "\<lambda>n. u ''timeout''" None "[]" world0]
  by (simp add: env_service_down_def env_eval u_def)

text \<open>The service recovers at its third call, for an audit report.\<close>

theorem two_failures_then_success_witness:
  "api_result env_service_recovers (length (api_log world0)) = Inl (u ''timeout'') \<and>
   api_result env_service_recovers (length (api_log world0) + 1) = Inl (u ''timeout'') \<and>
   api_result env_service_recovers (length (api_log world0) + 2) = Inr (Some (u ''# Plan'')) \<and>
   makedirs_outcome env_service_recovers [(u ''consultancy_type'', u ''audit'')] world0 = None \<and>
   build_result env_service_recovers (pdf_calls world0) = None \<and>
   fst (generate_consultation env_service_recovers [(u ''consultancy_type'', u ''audit'')] world0) =
     Inr [(u ''success'', PBool True), (u ''download_url'', PStr (u ''/download/audit_01234567.pdf''))] \<and>
   length (api_log (snd (generate_consultation env_service_recovers [(u ''consultancy_type'', u ''audit'')] world0))) = 3 \<and>
   sleeps (snd (generate_consultation env_service_recovers [(u ''consultancy_type'', u ''audit'')] world0)) = [2, 4] \<and>
   pdf_calls (snd (generate_consultation env_service_recovers [(u ''consultancy_type'', u ''audit'')] world0)) = 1 \<and>
   map fst (files (snd (generate_consultation env_service_recovers [(u ''consultancy_type'', u ''audit'')] world0))) =
     [u ''/app/static/downloads/audit_01234567.pdf'']"
proof -
  let ?E = env_service_recovers
  let ?fd = "[(u ''consultancy_type'', u ''audit'')]"
  have s: "47 \<notin> set (fmt_opt (dict_get ?fd (u ''consultancy_type'')))"
    by (simp add: dict_get_def u_def)
  have h: "api_result ?E (length (api_log world0)) = Inl (u ''timeout'')"
    "api_result ?E (length (api_log world0) + 1) = Inl (u ''timeout'')"
    "api_result ?E (length (api_log world0) + 2) = Inr (Some (u ''# Plan''))"
    "makedirs_outcome ?E ?fd world0 = None"
    "build_result ?E (pdf_calls world0) = None"
    using makedirs_outcome_no_slash [OF s] by (simp_all add: env_service_recovers_def env_eval)
  from two_failures_then_success [OF h]
  obtain w' content where g: "generate_consultation ?E ?fd world0 =
           (Inr [(u ''success'', PBool True),
                 (u ''download_url'', PStr (u ''/download/'' @
                    pdf_filename (dict_get ?fd (u ''consultancy_type''))
                      (take 8 (uuid_hex ?E (uuid_calls world0)))))], w')"
    and e: "api_log w' = api_log world0 @ replicate 3 (build_prompt ?fd)"
      "sleeps w' = sleeps world0 @ [2, 4]" "pdf_calls w' = pdf_calls world0 + 1"
      "files w' = files world0 @
           [(path_join (download_folder ?E)
               (pdf_filename (dict_get ?fd (u ''consultancy_type''))
                  (take 8 (uuid_hex ?E (uuid_calls world0)))), content)]"
    by blast
  have i: "take 8 (uuid_hex ?E (uuid_calls world0)) = u ''01234567''"
    by (rule demo_unique_id) (simp add: env_service_recovers_def demo_env_def)
  have f: "download_folder ?E = u ''/app/static/downloads''"
    by (rule demo_download_folder) (simp add: env_service_recovers_def demo_env_def)
  have n: "pdf_filename (dict_get ?fd (u ''consultancy_type'')) (u ''01234567'') = u ''audit_01234567.pdf''"
    by (simp add: pdf_filename_def dict_get_def u_def)
  have d: "path_join (u ''/app/static/downloads'') (u ''audit_01234567.pdf'') = u ''/app/static/downloads/audit_01234567.pdf''"
    by (simp add: path_join_def startswith_def u_def)
  from h g e show ?thesis
    unfolding i f n d by (simp add: world0_def u_def)
qed

text \<open>A clock that is past the limit at the check of the second and of the first attempt.\<close>

theorem budget_exceeded_returns_processing_witness:
  "time_read env_slow (time_calls (world0\<lparr>time_calls := 2\<rparr>)) - 0 > timeout_limit \<and>
   fst (attempt_loop env_slow [] 0 [1] 2 (world0\<lparr>time_calls := 2\<rparr>)) = Some processing_response \<and>
   api_log (snd (attempt_loop env_slow [] 0 [1] 2 (world0\<lparr>time_calls := 2\<rparr>))) = [] \<and>
   session_retrieve env_slow None = FormData [] \<and>
   time_read env_slow (time_calls world0 + 1) - time_read env_slow (time_calls world0) > timeout_limit \<and>
   fst (payment_success env_slow None world0) = Some processing_response \<and>
   api_log (snd (payment_success env_slow None world0)) = [] \<and>
   snd processing_response = 202"
proof -
  have h1: "time_read env_slow (time_calls (world0\<lparr>time_calls := 2\<rparr>)) - 0 > timeout_limit"
    by (simp add: env_slow_def env_eval)
  have h2: "session_retrieve env_slow None = FormData []"
    "time_read env_slow (time_calls world0 + 1) - time_read env_slow (time_calls world0) > timeout_limit"
    by (simp_all add: env_slow_def env_eval)
  from budget_exceeded_returns_processing
    [of env_slow "world0\<lparr>time_calls := 2\<rparr>" 0 "[]" 1 "[]" 2 None]
  have a: "fst (attempt_loop env_slow [] 0 [1] 2 (world0\<lparr>time_calls := 2\<rparr>)) = Some processing_response"
    and b: "effects (snd (attempt_loop env_slow [] 0 [1] 2 (world0\<lparr>time_calls := 2\<rparr>))) =
        effects (world0\<lparr>time_calls := 2, time_calls := time_calls (world0\<lparr>time_calls := 2\<rparr>) + 1\<rparr>)"
    using h1 by simp_all
  from budget_exceeded_returns_processing
    [of env_slow world0 0 "[]" 1 "[]" 2 None]
  have c: "fst (payment_success env_slow None world0) = Some processing_response"
    and d: "api_log (snd (payment_success env_slow None world0)) = api_log world0"
    and f: "snd processing_response = 202"
    using h2 by simp_all
  from h1 h2 a b c d f show ?thesis
    by (simp add: effects_fields world0_def)
qed

text \<open>A successful run with empty form data.\<close>

theorem generate_consultation_never_returns_failure_witness:
  "fst (generate_consultation env_ok [] world0) =
     Inr [(u ''success'', PBool True), (u ''download_url'', PStr (u ''/download/None_01234567.pdf''))] \<and>
   dict_get [(u ''success'', PBool True), (u ''download_url'', PStr (u ''/download/None_01234567.pdf''))]
     (u ''success'') = Some (PBool True) \<and>
   \<not> unsuccessful_result_logged world0 \<and>
   \<not> unsuccessful_result_logged (snd (payment_success env_ok None world0))"
proof -
  let ?d = "[(u ''success'', PBool True), (u ''download_url'', PStr (u ''/download/None_01234567.pdf''))]"
  have s: "47 \<notin> set (fmt_opt (dict_get [] (u ''consultancy_type'')))"
    by (simp add: dict_get_def u_def)
  have i: "take 8 (uuid_hex env_ok (uuid_calls world0)) = u ''01234567''"
    by (rule demo_unique_id) (simp add: env_ok_def demo_env_def)
  obtain w1 where "generate_consultation env_ok [] world0 =
       (Inr [(u ''success'', PBool True),
             (u ''download_url'', PStr (u ''/download/'' @
                pdf_filename (dict_get [] (u ''consultancy_type'')) (take 8 (uuid_hex env_ok (uuid_calls world0)))))],
        w1)"
    using gc_render_ok [of env_ok world0 "u ''# Plan''" "[]", OF _ makedirs_outcome_no_slash [OF s]]
    by (auto simp: env_ok_def env_eval)
  then have g: "generate_consultation env_ok [] world0 = (Inr ?d, w1)"
    unfolding i by (simp add: pdf_filename_def dict_get_def u_def)
  have n: "\<not> unsuccessful_result_logged world0"
    by (simp add: unsuccessful_result_logged_def world0_def)
  from generate_consultation_never_returns_failure [of env_ok "[]" world0 ?d w1 None] g n
  show ?thesis by simp
qed

text \<open>Form data with a business name and no consultancy type.\<close>

theorem missing_consultancy_type_witness:
  "dict_get [(u ''business_name'', u ''Acme'')] (u ''consultancy_type'') = None \<and>
   api_result env_ok (length (api_log world0)) = Inr (Some (u ''# Plan'')) \<and>
   build_result env_ok (pdf_calls world0) = None \<and>
   length (uuid_hex env_ok (uuid_calls world0)) = 32 \<and>
   fst (generate_consultation env_ok [(u ''business_name'', u ''Acme'')] world0) =
     Inr [(u ''success'', PBool True), (u ''download_url'', PStr (u ''/download/None_01234567.pdf''))] \<and>
   startswith (build_prompt [(u ''business_name'', u ''Acme'')])
     (u ''Generate a comprehensive AI Consultancy report for Acme, '') \<and>
   map fst (files (snd (generate_consultation env_ok [(u ''business_name'', u ''Acme'')] world0))) =
     [u ''/app/static/downloads/None_01234567.pdf''] \<and>
   map (hd \<circ> snd) (files (snd (generate_consultation env_ok [(u ''business_name'', u ''Acme'')] world0))) =
     [Paragraph (u ''AI CONSULTANCY REPORT'') title_style]"
proof -
  let ?fd = "[(u ''business_name'', u ''Acme'')]"
  have h: "dict_get ?fd (u ''consultancy_type'') = None"
    "api_result env_ok (length (api_log world0)) = Inr (Some (u ''# Plan''))"
    "build_result env_ok (pdf_calls world0) = None"
    by (simp_all add: env_ok_def env_eval dict_get_def u_def)
  have l: "length (uuid_hex env_ok (uuid_calls world0)) = 32"
    by (rule length_uuid_hex)
  have p: "startswith (build_prompt ?fd) (u ''Generate a comprehensive AI Consultancy report for Acme, '')"
    by (simp add: build_prompt_def type_label_def dict_get_def u_def)
  have i: "take 8 (uuid_hex env_ok (uuid_calls world0)) = u ''01234567''"
    by (rule demo_unique_id) (simp add: env_ok_def demo_env_def)
  have f: "download_folder env_ok = u ''/app/static/downloads''"
    by (rule demo_download_folder) (simp add: env_ok_def demo_env_def)
  have d: "path_join (u ''/app/static/downloads'') (u ''None_'' @ u ''01234567'' @ u ''.pdf'')
      = u ''/app/static/downloads/None_01234567.pdf''"
    by (simp add: path_join_def startswith_def u_def)
  have c: "str_upper (casing_db env_ok) (u ''AI Consultancy Report'') = u ''AI CONSULTANCY REPORT''"
    by (simp add: env_ok_def demo_env_def ascii_casing_def ascii_lower_cp_def u_def)
  from missing_consultancy_type [OF h]
  obtain w' content where g: "generate_consultation env_ok ?fd world0 =
       (Inr [(u ''success'', PBool True),
             (u ''download_url'',
              PStr (u ''/download/None_'' @ take 8 (uuid_hex env_ok (uuid_calls world0)) @ u ''.pdf''))], w')"
    and fl: "files w' = files world0 @
       [(path_join (download_folder env_ok) (u ''None_'' @ take 8 (uuid_hex env_ok (uuid_calls world0)) @ u ''.pdf''),
         Paragraph (str_upper (casing_db env_ok) (u ''AI Consultancy Report'')) title_style # content)]"
    by blast
  from h l p g fl show ?thesis
    unfolding i f d c by (simp add: world0_def u_def)
qed

end
